theory Spec2Isabelle
  imports Complex_Main "HOL-Library.AList" "HOL-Library.Sublist" "HOL-Library.Monad_Syntax"
    "HOL-Library.Word"
begin

section \<open>JavaScript values and the host runtime\<close>

text \<open>
  A JavaScript number is an IEEE 754 double: a finite value, one of the two infinities,
  or NaN. The finite values are carried as reals (every double is one; the two zeros are
  not told apart). Comparison of doubles is exact and is defined here; addition rounds,
  and is taken from the host (\<open>num_add\<close> below) with nothing assumed of it.
\<close>

datatype number = Finite real | PosInfinity | NegInfinity | NaN

text \<open>\<open>x > y\<close> on numbers: false as soon as one side is NaN.\<close>

fun num_gt :: "number \<Rightarrow> number \<Rightarrow> bool" where
  "num_gt (Finite a) (Finite b) = (a > b)"
| "num_gt (Finite a) PosInfinity = False"
| "num_gt (Finite a) NegInfinity = True"
| "num_gt (Finite a) NaN = False"
| "num_gt PosInfinity (Finite b) = True"
| "num_gt PosInfinity PosInfinity = False"
| "num_gt PosInfinity NegInfinity = True"
| "num_gt PosInfinity NaN = False"
| "num_gt NegInfinity y = False"
| "num_gt NaN y = False"

text \<open>
  Parsed YAML and JSON values are the datatype \<open>json\<close>; a JavaScript object is an
  association list whose keys are distinct, in insertion order.
\<close>

datatype json =
    JNull
  | JBool bool
  | JNum number
  | JStr string
  | JArr "json list"
  | JObj "(string \<times> json) list"

type_synonym object = "(string \<times> json) list"

text \<open>\<open>'${s}'\<close> inside a template literal: the text between two apostrophes.\<close>

definition quoted :: "string \<Rightarrow> string" where
  "quoted s = CHR 0x27 # s @ [CHR 0x27]"

text \<open>\<open>String.prototype.includes\<close> and \<open>Array.prototype.includes\<close> on strings.\<close>

definition str_includes :: "string \<Rightarrow> string \<Rightarrow> bool" where
  "str_includes hay needle = sublist needle hay"

definition arr_includes :: "string list \<Rightarrow> string \<Rightarrow> bool" where
  "arr_includes xs x = (x \<in> set xs)"

text \<open>
  What the code takes from outside the repository: the rendering of a number inside a
  template literal, the addition \<open>x + y\<close> of two numbers, \<open>String(v)\<close> of a value, the
  CEL evaluator of \<open>@marcbachmann/cel-js\<close>, which returns a value or throws with a
  message, \<open>Date.prototype.toISOString\<close> of a time value inside the range of \<open>Date\<close>,
  \<open>JSON.stringify\<close>, and \<open>JSON.parse\<close>, which returns a value or throws (\<open>None\<close>).
\<close>

datatype cel_outcome = CelValue json | CelThrow string

record host =
  num_text :: "number \<Rightarrow> string"
  num_add :: "number \<Rightarrow> number \<Rightarrow> number"
  String_of :: "json \<Rightarrow> string"
  celEvaluate :: "string \<Rightarrow> object \<Rightarrow> cel_outcome"
  toISOString :: "real \<Rightarrow> string"
  JSON_stringify :: "json \<Rightarrow> string"
  JSON_parse :: "string \<Rightarrow> json option"

text \<open>\<open>x ?? d\<close> and \<open>x || d\<close> on an optional value whose truthiness is decided elsewhere.\<close>

definition the_default :: "'a \<Rightarrow> 'a option \<Rightarrow> 'a" where
  "the_default d x = (case x of None \<Rightarrow> d | Some v \<Rightarrow> v)"

text \<open>
  \<open>new Date(t).toISOString()\<close>: a time value beyond 8.64e15 milliseconds on either side
  of the epoch makes an invalid \<open>Date\<close>, and \<open>toISOString\<close> throws a \<open>RangeError\<close>
  (\<open>None\<close>).
\<close>

definition Date_toISOString :: "host \<Rightarrow> real \<Rightarrow> string option" where
  "Date_toISOString h t =
     (if \<bar>t\<bar> \<le> 8640000000000000 then Some (toISOString h t) else None)"

section \<open>Data model (types.ts)\<close>

datatype string_or_array = Single string | Array "string list"

record PolicyScope =
  grant_agent_id :: "string_or_array option"
  grant_skill_id :: "string_or_array option"

record PolicyBudget =
  max_per_transaction :: "number option"
  max_per_month :: "number option"
  budget_currency :: "string option"

record Policy =
  p_name :: string
  p_description :: "string option"
  p_credential :: string
  p_grant_to :: PolicyScope
  p_deny :: "string list option"
  p_actions :: "string list option"
  p_budget :: "PolicyBudget option"
  p_approval_threshold :: "number option"
  p_condition :: "string option"
  p_scope :: "object option"
  p_ttl :: "real option"

record CredentialRequest =
  credential_name :: string
  agent_id :: string
  skill_id :: "string option"
  purpose :: string
  amount :: "number option"
  currency :: "string option"
  action :: "string option"
  req_context :: "object option"

datatype PolicyDecision = Allow | Deny | RequireApproval

record PolicyEvalResult =
  decision :: PolicyDecision
  reason :: string
  scope :: "object option"
  policy_name :: "string option"

section \<open>Policy engine (policy/engine.ts)\<close>

text \<open>JavaScript truthiness of an optional string and of an optional string-or-array.\<close>

definition truthy_str :: "string option \<Rightarrow> bool" where
  "truthy_str s = (case s of None \<Rightarrow> False | Some v \<Rightarrow> v \<noteq> [])"

fun truthy_soa :: "string_or_array option \<Rightarrow> bool" where
  "truthy_soa None = False"
| "truthy_soa (Some (Single s)) = (s \<noteq> [])"
| "truthy_soa (Some (Array xs)) = True"

text \<open>\<open>Array.isArray(g) ? g : [g]\<close>\<close>

fun as_array :: "string_or_array \<Rightarrow> string list" where
  "as_array (Single s) = [s]"
| "as_array (Array xs) = xs"

definition budget_limit :: "(PolicyBudget \<Rightarrow> number option) \<Rightarrow> Policy \<Rightarrow> number option" where
  "budget_limit f policy = (case p_budget policy of None \<Rightarrow> None | Some b \<Rightarrow> f b)"

text \<open>
  The context handed to the CEL evaluator: the six request fields, then the keys of
  \<open>request.context\<close> spread over them (a later key replaces an earlier one in place).
\<close>

definition celContext :: "CredentialRequest \<Rightarrow> object" where
  "celContext request =
     fold (\<lambda>(k, v). AList.update k v)
       (case req_context request of None \<Rightarrow> [] | Some c \<Rightarrow> c)
       [(''agent_id'', JStr (agent_id request)),
        (''skill_id'', JStr (case skill_id request of None \<Rightarrow> [] | Some s \<Rightarrow> s)),
        (''purpose'', JStr (purpose request)),
        (''amount'', JNum (case amount request of None \<Rightarrow> Finite 0 | Some a \<Rightarrow> a)),
        (''currency'', JStr (case currency request of None \<Rightarrow> [] | Some c \<Rightarrow> c)),
        (''action'', JStr (case action request of None \<Rightarrow> [] | Some a \<Rightarrow> a))]"

definition verdict ::
  "PolicyDecision \<Rightarrow> string \<Rightarrow> object option \<Rightarrow> Policy \<Rightarrow> PolicyEvalResult" where
  "verdict d why sc policy =
     \<lparr>decision = d, reason = why, scope = sc, policy_name = Some (p_name policy)\<rparr>"

text \<open>The conditions of the eight \<open>if\<close> statements of \<open>evaluate\<close>, in source order.\<close>

definition deny_listed :: "Policy \<Rightarrow> CredentialRequest \<Rightarrow> bool" where
  "deny_listed policy request =
     (case p_deny policy of None \<Rightarrow> False | Some d \<Rightarrow> arr_includes d (agent_id request))"

definition agent_not_granted :: "Policy \<Rightarrow> CredentialRequest \<Rightarrow> bool" where
  "agent_not_granted policy request =
     (case grant_agent_id (p_grant_to policy) of
        None \<Rightarrow> False
      | Some grantAgents \<Rightarrow>
          truthy_soa (Some grantAgents) \<and>
          \<not> arr_includes (as_array grantAgents) ''*'' \<and>
          \<not> arr_includes (as_array grantAgents) (agent_id request))"

definition skill_not_granted :: "Policy \<Rightarrow> CredentialRequest \<Rightarrow> bool" where
  "skill_not_granted policy request =
     (case skill_id request of
        None \<Rightarrow> False
      | Some sk \<Rightarrow>
          sk \<noteq> [] \<and>
          (case grant_skill_id (p_grant_to policy) of
             None \<Rightarrow> False
           | Some g \<Rightarrow>
               truthy_soa (Some g) \<and>
               \<not> arr_includes (as_array g) ''*'' \<and>
               \<not> arr_includes (as_array g) sk))"

definition action_not_allowed :: "Policy \<Rightarrow> CredentialRequest \<Rightarrow> bool" where
  "action_not_allowed policy request =
     (case p_actions policy of
        None \<Rightarrow> False
      | Some acts \<Rightarrow>
          (case action request of
             None \<Rightarrow> False
           | Some a \<Rightarrow> a \<noteq> [] \<and> \<not> arr_includes acts a))"

definition over_transaction :: "Policy \<Rightarrow> CredentialRequest \<Rightarrow> bool" where
  "over_transaction policy request =
     (case budget_limit max_per_transaction policy of
        None \<Rightarrow> False
      | Some cap \<Rightarrow> (case amount request of None \<Rightarrow> False | Some a \<Rightarrow> num_gt a cap))"

definition monthlySpent :: "number option \<Rightarrow> number" where
  "monthlySpent monthlySpending =
     (case monthlySpending of None \<Rightarrow> Finite 0 | Some s \<Rightarrow> s)"

definition over_month :: "host \<Rightarrow> Policy \<Rightarrow> CredentialRequest \<Rightarrow> number option \<Rightarrow> bool" where
  "over_month h policy request monthlySpending =
     (case budget_limit max_per_month policy of
        None \<Rightarrow> False
      | Some cap \<Rightarrow>
          (case amount request of
             None \<Rightarrow> False
           | Some a \<Rightarrow> num_gt (num_add h (monthlySpent monthlySpending) a) cap))"

definition over_threshold :: "Policy \<Rightarrow> CredentialRequest \<Rightarrow> bool" where
  "over_threshold policy request =
     (case p_approval_threshold policy of
        None \<Rightarrow> False
      | Some th \<Rightarrow> (case amount request of None \<Rightarrow> False | Some a \<Rightarrow> num_gt a th))"

definition condition_fails :: "host \<Rightarrow> Policy \<Rightarrow> CredentialRequest \<Rightarrow> bool" where
  "condition_fails h policy request =
     (case p_condition policy of
        None \<Rightarrow> False
      | Some c \<Rightarrow> c \<noteq> [] \<and> celEvaluate h c (celContext request) \<noteq> CelValue (JBool True))"

text \<open>The reason of the denial of step 8: the value the condition gave, or the error.\<close>

definition condition_reason :: "host \<Rightarrow> Policy \<Rightarrow> CredentialRequest \<Rightarrow> string" where
  "condition_reason h policy request =
     (let c = (case p_condition policy of None \<Rightarrow> [] | Some c \<Rightarrow> c) in
      case celEvaluate h c (celContext request) of
        CelValue result \<Rightarrow>
          ''CEL condition '' @ quoted c @ '' evaluated to '' @ String_of h result @ ''.''
      | CelThrow msg \<Rightarrow> ''CEL evaluation error: '' @ msg)"

text \<open>
  \<open>request.amount\<close> and a limit inside a reason: where they are printed they are set.
\<close>

definition the_amount :: "CredentialRequest \<Rightarrow> number" where
  "the_amount request = (case amount request of None \<Rightarrow> Finite 0 | Some a \<Rightarrow> a)"

definition the_limit :: "number option \<Rightarrow> number" where
  "the_limit l = (case l of None \<Rightarrow> Finite 0 | Some v \<Rightarrow> v)"

definition evaluate ::
  "host \<Rightarrow> Policy \<Rightarrow> CredentialRequest \<Rightarrow> number option \<Rightarrow> PolicyEvalResult" where
  "evaluate h policy request monthlySpending =
    (if deny_listed policy request then
       verdict Deny
         (''Agent '' @ quoted (agent_id request) @ '' is explicitly denied by policy '' @
          quoted (p_name policy) @ ''.'') None policy
     else if agent_not_granted policy request then
       verdict Deny
         (''Agent '' @ quoted (agent_id request) @ '' is not granted access by policy '' @
          quoted (p_name policy) @ ''.'') None policy
     else if skill_not_granted policy request then
       verdict Deny
         (''Skill '' @ quoted (case skill_id request of None \<Rightarrow> [] | Some s \<Rightarrow> s) @
          '' is not granted access by policy '' @ quoted (p_name policy) @ ''.'') None policy
     else if action_not_allowed policy request then
       verdict Deny
         (''Action '' @ quoted (case action request of None \<Rightarrow> [] | Some a \<Rightarrow> a) @
          '' is not allowed by policy '' @ quoted (p_name policy) @ ''.'') None policy
     else if over_transaction policy request then
       verdict Deny
         (''Amount $'' @ num_text h (the_amount request) @ '' exceeds max per transaction $'' @
          num_text h (the_limit (budget_limit max_per_transaction policy)) @ ''.'') None policy
     else if over_month h policy request monthlySpending then
       verdict Deny
         (''Amount $'' @ num_text h (the_amount request) @
          '' would exceed monthly budget. Spent: $'' @
          num_text h (monthlySpent monthlySpending) @ '', limit: $'' @
          num_text h (the_limit (budget_limit max_per_month policy)) @ ''.'') None policy
     else if over_threshold policy request then
       verdict RequireApproval
         (''Amount $'' @ num_text h (the_amount request) @ '' exceeds approval threshold $'' @
          num_text h (the_limit (p_approval_threshold policy)) @ ''.'') (p_scope policy) policy
     else if condition_fails h policy request then
       verdict Deny (condition_reason h policy request) None policy
     else
       verdict Allow ''All policy checks passed.'' (p_scope policy) policy)"

text \<open>The \<open>for\<close> loop of \<open>evaluateFirst\<close>: the first result that is not a denial.\<close>

fun first_permitted ::
  "host \<Rightarrow> Policy list \<Rightarrow> CredentialRequest \<Rightarrow> number option \<Rightarrow> PolicyEvalResult option" where
  "first_permitted h [] request ms = None"
| "first_permitted h (policy # rest) request ms =
     (let result = evaluate h policy request ms in
      if decision result = Allow then Some result
      else if decision result = RequireApproval then Some result
      else first_permitted h rest request ms)"

definition no_policy_found :: "CredentialRequest \<Rightarrow> PolicyEvalResult" where
  "no_policy_found request =
     \<lparr>decision = Deny,
      reason = ''No policy found for credential '' @ quoted (credential_name request) @ ''.'',
      scope = None, policy_name = None\<rparr>"

definition evaluateFirst ::
  "host \<Rightarrow> Policy list \<Rightarrow> CredentialRequest \<Rightarrow> number option \<Rightarrow> PolicyEvalResult" where
  "evaluateFirst h policies request ms =
     (let matching = filter (\<lambda>p. p_credential p = credential_name request) policies in
      if length matching = 0 then no_policy_found request
      else
        (case first_permitted h matching request ms of
           Some result \<Rightarrow> result
         | None \<Rightarrow> evaluate h (matching ! (length matching - 1)) request ms))"


subsection \<open>The order of the checks, as the specification lists them\<close>

datatype check =
    ExplicitDeny
  | GrantAgent
  | GrantSkill
  | Actions
  | PerTransaction
  | Monthly
  | ApprovalThreshold
  | ConditionExpr

definition checks_in_order :: "check list" where
  "checks_in_order =
     [ExplicitDeny, GrantAgent, GrantSkill, Actions, PerTransaction, Monthly,
      ApprovalThreshold, ConditionExpr]"

fun check_fails ::
  "host \<Rightarrow> Policy \<Rightarrow> CredentialRequest \<Rightarrow> number option \<Rightarrow> check \<Rightarrow> bool" where
  "check_fails h p r ms ExplicitDeny = deny_listed p r"
| "check_fails h p r ms GrantAgent = agent_not_granted p r"
| "check_fails h p r ms GrantSkill = skill_not_granted p r"
| "check_fails h p r ms Actions = action_not_allowed p r"
| "check_fails h p r ms PerTransaction = over_transaction p r"
| "check_fails h p r ms Monthly = over_month h p r ms"
| "check_fails h p r ms ApprovalThreshold = over_threshold p r"
| "check_fails h p r ms ConditionExpr = condition_fails h p r"

fun check_decision :: "check \<Rightarrow> PolicyDecision" where
  "check_decision ApprovalThreshold = RequireApproval"
| "check_decision _ = Deny"

definition first_failing ::
  "host \<Rightarrow> Policy \<Rightarrow> CredentialRequest \<Rightarrow> number option \<Rightarrow> check option" where
  "first_failing h p r ms = find (check_fails h p r ms) checks_in_order"

text \<open>The checks whose reason text quotes the policy's name.\<close>

definition names_in_reason :: "check \<Rightarrow> bool" where
  "names_in_reason k = (k = ExplicitDeny \<or> k = GrantAgent \<or> k = GrantSkill \<or> k = Actions)"

text \<open>The reason text of each check, and the whole result a failing check gives.\<close>

fun check_reason ::
  "host \<Rightarrow> Policy \<Rightarrow> CredentialRequest \<Rightarrow> number option \<Rightarrow> check \<Rightarrow> string" where
  "check_reason h p r ms ExplicitDeny =
     ''Agent '' @ quoted (agent_id r) @ '' is explicitly denied by policy '' @
     quoted (p_name p) @ ''.''"
| "check_reason h p r ms GrantAgent =
     ''Agent '' @ quoted (agent_id r) @ '' is not granted access by policy '' @
     quoted (p_name p) @ ''.''"
| "check_reason h p r ms GrantSkill =
     ''Skill '' @ quoted (the_default [] (skill_id r)) @
     '' is not granted access by policy '' @ quoted (p_name p) @ ''.''"
| "check_reason h p r ms Actions =
     ''Action '' @ quoted (the_default [] (action r)) @ '' is not allowed by policy '' @
     quoted (p_name p) @ ''.''"
| "check_reason h p r ms PerTransaction =
     ''Amount $'' @ num_text h (the_amount r) @ '' exceeds max per transaction $'' @
     num_text h (the_limit (budget_limit max_per_transaction p)) @ ''.''"
| "check_reason h p r ms Monthly =
     ''Amount $'' @ num_text h (the_amount r) @ '' would exceed monthly budget. Spent: $'' @
     num_text h (monthlySpent ms) @ '', limit: $'' @
     num_text h (the_limit (budget_limit max_per_month p)) @ ''.''"
| "check_reason h p r ms ApprovalThreshold =
     ''Amount $'' @ num_text h (the_amount r) @ '' exceeds approval threshold $'' @
     num_text h (the_limit (p_approval_threshold p)) @ ''.''"
| "check_reason h p r ms ConditionExpr = condition_reason h p r"

definition check_result ::
  "host \<Rightarrow> Policy \<Rightarrow> CredentialRequest \<Rightarrow> number option \<Rightarrow> check \<Rightarrow> PolicyEvalResult" where
  "check_result h p r ms k =
     \<lparr>decision = check_decision k, reason = check_reason h p r ms k,
      scope = (if k = ApprovalThreshold then p_scope p else None),
      policy_name = Some (p_name p)\<rparr>"

definition all_passed :: "Policy \<Rightarrow> PolicyEvalResult" where
  "all_passed p =
     \<lparr>decision = Allow, reason = ''All policy checks passed.'', scope = p_scope p,
      policy_name = Some (p_name p)\<rparr>"

text \<open>
  What the specification describes: go through the checks in their order, stop at the
  first that fails and return its result; return \<open>allow\<close> when none fails.
\<close>

definition ordered_evaluate ::
  "host \<Rightarrow> Policy \<Rightarrow> CredentialRequest \<Rightarrow> number option \<Rightarrow> PolicyEvalResult" where
  "ordered_evaluate h p r ms =
     (case first_failing h p r ms of
        None \<Rightarrow> all_passed p
      | Some k \<Rightarrow> check_result h p r ms k)"

section \<open>Policy schema (policy/types.ts)\<close>

text \<open>
  The schemas are built with zod. \<open>parse\<close> throws a \<open>ZodError\<close> or returns the validated
  value; here a schema is a function from the value at a key (\<open>None\<close> when the key is
  absent, JavaScript's \<open>undefined\<close>) to the validated value, \<open>None\<close> standing for the
  thrown error. Every object schema of the file is a plain \<open>z.object({...})\<close>, without
  \<open>.strict()\<close> or \<open>.passthrough()\<close>: zod reads the keys of the shape and drops all
  others.
\<close>

datatype error =
    ValidationError
  | YAMLParseError
  | AlreadyInitialized
  | NotInitialized
  | VaultLocked
  | AuthenticationFailed
  | DatabaseClosed
  | UniqueConstraint
  | MetadataSyntaxError
  | RangeError

definition field :: "object \<Rightarrow> string \<Rightarrow> json option" where
  "field obj k = map_of obj k"

fun z_string :: "json option \<Rightarrow> string option" where
  "z_string (Some (JStr s)) = Some s"
| "z_string _ = None"

definition z_string_min1 :: "json option \<Rightarrow> string option" where
  "z_string_min1 v =
     (case z_string v of None \<Rightarrow> None | Some s \<Rightarrow> if 1 \<le> length s then Some s else None)"

fun z_strings :: "json list \<Rightarrow> string list option" where
  "z_strings [] = Some []"
| "z_strings (x # xs) =
     (case z_string (Some x) of
        None \<Rightarrow> None
      | Some s \<Rightarrow> (case z_strings xs of None \<Rightarrow> None | Some ss \<Rightarrow> Some (s # ss)))"

fun z_array_string :: "json option \<Rightarrow> string list option" where
  "z_array_string (Some (JArr xs)) = z_strings xs"
| "z_array_string _ = None"

text \<open>\<open>z.union([z.string(), z.array(z.string())])\<close>\<close>

fun z_string_or_array :: "json option \<Rightarrow> string_or_array option" where
  "z_string_or_array (Some (JStr s)) = Some (Single s)"
| "z_string_or_array (Some (JArr xs)) = map_option Array (z_strings xs)"
| "z_string_or_array _ = None"

text \<open>\<open>.optional()\<close>: an absent key is accepted; \<open>null\<close> is not \<open>undefined\<close>.\<close>

definition z_optional :: "(json option \<Rightarrow> 'a option) \<Rightarrow> json option \<Rightarrow> 'a option option" where
  "z_optional schema v =
     (case v of None \<Rightarrow> Some None | Some x \<Rightarrow> map_option Some (schema (Some x)))"

text \<open>
  \<open>z.number()\<close> accepts every number but NaN; \<open>.positive()\<close> rejects a number that is
  \<open>\<le> 0\<close>; \<open>.int()\<close> asks for \<open>Number.isInteger\<close>, which no infinity passes.
\<close>

fun z_number_positive :: "json option \<Rightarrow> number option" where
  "z_number_positive (Some (JNum x)) = (if num_gt x (Finite 0) then Some x else None)"
| "z_number_positive _ = None"

fun z_number_int_positive :: "json option \<Rightarrow> real option" where
  "z_number_int_positive (Some (JNum (Finite x))) =
     (if of_int \<lfloor>x\<rfloor> = x \<and> 0 < x then Some x else None)"
| "z_number_int_positive _ = None"

fun z_record_unknown :: "json option \<Rightarrow> object option" where
  "z_record_unknown (Some (JObj kvs)) = Some kvs"
| "z_record_unknown _ = None"

fun PolicyScopeSchema :: "json option \<Rightarrow> PolicyScope option" where
  "PolicyScopeSchema (Some (JObj obj)) =
     do {
       a \<leftarrow> z_optional z_string_or_array (field obj ''agent_id'');
       s \<leftarrow> z_optional z_string_or_array (field obj ''skill_id'');
       Some \<lparr>grant_agent_id = a, grant_skill_id = s\<rparr>
     }"
| "PolicyScopeSchema _ = None"

fun PolicyBudgetSchema :: "json option \<Rightarrow> PolicyBudget option" where
  "PolicyBudgetSchema (Some (JObj obj)) =
     do {
       t \<leftarrow> z_optional z_number_positive (field obj ''max_per_transaction'');
       m \<leftarrow> z_optional z_number_positive (field obj ''max_per_month'');
       c \<leftarrow> z_optional z_string (field obj ''currency'');
       Some \<lparr>max_per_transaction = t, max_per_month = m, budget_currency = c\<rparr>
     }"
| "PolicyBudgetSchema _ = None"


fun PolicySchema :: "json option \<Rightarrow> Policy option" where
  "PolicySchema (Some (JObj obj)) =
     do {
       n \<leftarrow> z_string_min1 (field obj ''name'');
       d \<leftarrow> z_optional z_string (field obj ''description'');
       c \<leftarrow> z_string_min1 (field obj ''credential'');
       g \<leftarrow> PolicyScopeSchema (field obj ''grant_to'');
       dn \<leftarrow> z_optional z_array_string (field obj ''deny'');
       ac \<leftarrow> z_optional z_array_string (field obj ''actions'');
       b \<leftarrow> z_optional PolicyBudgetSchema (field obj ''budget'');
       th \<leftarrow> z_optional z_number_positive (field obj ''approval_threshold'');
       cn \<leftarrow> z_optional z_string (field obj ''condition'');
       sc \<leftarrow> z_optional z_record_unknown (field obj ''scope'');
       t \<leftarrow> z_optional z_number_int_positive (field obj ''ttl'');
       Some \<lparr>p_name = n, p_description = d, p_credential = c, p_grant_to = g, p_deny = dn,
             p_actions = ac, p_budget = b, p_approval_threshold = th, p_condition = cn,
             p_scope = sc, p_ttl = t\<rparr>
     }"
| "PolicySchema _ = None"

fun z_policies :: "json list \<Rightarrow> Policy list option" where
  "z_policies [] = Some []"
| "z_policies (x # xs) =
     (case PolicySchema (Some x) of
        None \<Rightarrow> None
      | Some p \<Rightarrow> (case z_policies xs of None \<Rightarrow> None | Some ps \<Rightarrow> Some (p # ps)))"

fun z_array_policy :: "json option \<Rightarrow> Policy list option" where
  "z_array_policy (Some (JArr xs)) = z_policies xs"
| "z_array_policy _ = None"

record PolicyFile =
  version :: string
  file_policies :: "Policy list"

fun PolicyFileSchema :: "json option \<Rightarrow> PolicyFile option" where
  "PolicyFileSchema (Some (JObj obj)) =
     do {
       v \<leftarrow> z_string (field obj ''version'');
       ps \<leftarrow> z_array_policy (field obj ''policies'');
       Some \<lparr>version = v, file_policies = ps\<rparr>
     }"
| "PolicyFileSchema _ = None"

section \<open>Policy loader (policy/loader.ts)\<close>

text \<open>
  The loader's \<open>Map\<close> from name to policy: an association list in insertion order.
  \<open>Map.set\<close> on a key that is present replaces the value and keeps the key's place.
\<close>

record PolicyLoader =
  policy_map :: "(string \<times> Policy) list"


definition set_all :: "Policy list \<Rightarrow> (string \<times> Policy) list \<Rightarrow> (string \<times> Policy) list" where
  "set_all ps m = fold (\<lambda>policy. AList.update (p_name policy) policy) ps m"

definition loadFromObject :: "PolicyLoader \<Rightarrow> json \<Rightarrow> error + PolicyLoader" where
  "loadFromObject loader data =
     (case PolicyFileSchema (Some data) of
        None \<Rightarrow> Inl ValidationError
      | Some validated \<Rightarrow> Inr (loader\<lparr>policy_map := set_all (file_policies validated) []\<rparr>))"

text \<open>
  \<open>loadFromFile\<close> reads the file and parses it with the \<open>yaml\<close> package, taken here as
  the parameter \<open>parseYaml\<close> applied to the file's text.
\<close>

definition loadFromFile ::
  "(string \<Rightarrow> json option) \<Rightarrow> PolicyLoader \<Rightarrow> string \<Rightarrow> error + PolicyLoader" where
  "loadFromFile parseYaml loader raw =
     (case parseYaml raw of
        None \<Rightarrow> Inl YAMLParseError
      | Some parsed \<Rightarrow> loadFromObject loader parsed)"

definition getPolicy :: "PolicyLoader \<Rightarrow> string \<Rightarrow> Policy option" where
  "getPolicy loader n = map_of (policy_map loader) n"

definition listPolicies :: "PolicyLoader \<Rightarrow> Policy list" where
  "listPolicies loader = map snd (policy_map loader)"

definition granted_to :: "string \<Rightarrow> string option \<Rightarrow> Policy \<Rightarrow> bool" where
  "granted_to agentId skillId policy =
     (if (case p_deny policy of None \<Rightarrow> False | Some d \<Rightarrow> arr_includes d agentId) then False
      else if
        (case grant_agent_id (p_grant_to policy) of
           None \<Rightarrow> False
         | Some grantAgents \<Rightarrow>
             truthy_soa (Some grantAgents) \<and>
             \<not> arr_includes (as_array grantAgents) ''*'' \<and>
             \<not> arr_includes (as_array grantAgents) agentId) then False
      else if
        (truthy_str skillId \<and> truthy_soa (grant_skill_id (p_grant_to policy)) \<and>
         (case grant_skill_id (p_grant_to policy) of
            None \<Rightarrow> False
          | Some g \<Rightarrow>
              \<not> arr_includes (as_array g) ''*'' \<and>
              \<not> arr_includes (as_array g) (case skillId of None \<Rightarrow> [] | Some s \<Rightarrow> s))) then False
      else True)"

definition listPoliciesForAgent :: "PolicyLoader \<Rightarrow> string \<Rightarrow> string option \<Rightarrow> Policy list" where
  "listPoliciesForAgent loader agentId skillId =
     filter (granted_to agentId skillId) (listPolicies loader)"

subsection \<open>A document without its unknown keys\<close>






section \<open>Token store (token-store.ts)\<close>

record ScopedToken =
  token_id :: string
  tok_credential_name :: string
  credential_value :: string
  tok_policy_name :: string
  tok_agent_id :: string
  tok_skill_id :: "string option"
  tok_scope :: object
  issued_at :: real
  expires_at :: real
  used :: bool

record issue_params =
  ip_credential_name :: string
  ip_credential_value :: string
  ip_policy_name :: string
  ip_agent_id :: string
  ip_skill_id :: "string option"
  ip_scope :: "object option"
  ip_ttl :: "real option"

text \<open>The store's \<open>Map\<close> from token id to token, in insertion order.\<close>

record TokenStore =
  tokens :: "(string \<times> ScopedToken) list"

definition new_TokenStore :: TokenStore where
  "new_TokenStore = \<lparr>tokens = []\<rparr>"

text \<open>
  \<open>issue\<close> reads the clock (\<open>Date.now()\<close>, here \<open>now\<close>) and draws a UUID
  (\<open>randomUUID()\<close>, here \<open>uuid\<close>).
\<close>

definition TokenStore_issue ::
  "TokenStore \<Rightarrow> issue_params \<Rightarrow> real \<Rightarrow> string \<Rightarrow> ScopedToken \<times> TokenStore" where
  "TokenStore_issue store params now uuid =
     (let ttlMs = (case ip_ttl params of None \<Rightarrow> 300 | Some t \<Rightarrow> t) * 1000;
          token =
            \<lparr>token_id = uuid,
             tok_credential_name = ip_credential_name params,
             credential_value = ip_credential_value params,
             tok_policy_name = ip_policy_name params,
             tok_agent_id = ip_agent_id params,
             tok_skill_id = ip_skill_id params,
             tok_scope = (case ip_scope params of None \<Rightarrow> [] | Some s \<Rightarrow> s),
             issued_at = now,
             expires_at = now + ttlMs,
             used = False\<rparr>
      in (token, store\<lparr>tokens := AList.update (token_id token) token (tokens store)\<rparr>))"














section \<open>Audit log (audit/schema.ts, audit/logger.ts)\<close>

datatype AuditEvent =
    credential_requested
  | credential_granted
  | credential_denied
  | credential_used
  | approval_required
  | token_expired
  | vault_unlocked
  | vault_locked
  | credential_added
  | credential_removed

record AuditEntry =
  e_timestamp :: string
  e_event :: AuditEvent
  e_policy :: "string option"
  e_agent_id :: "string option"
  e_skill_id :: "string option"
  e_purpose :: "string option"
  e_token_id :: "string option"
  e_credential_name :: "string option"
  e_scope :: "object option"
  e_context :: "object option"
  e_outcome :: "string option"
  e_approval :: "string option"
  e_details :: "string option"

text \<open>A row of the table \<open>audit_log\<close>; a nullable column is an option.\<close>

record AuditRow =
  row_id :: nat
  row_timestamp :: string
  row_event :: AuditEvent
  row_policy :: "string option"
  row_agent_id :: "string option"
  row_skill_id :: "string option"
  row_purpose :: "string option"
  row_token_id :: "string option"
  row_credential_name :: "string option"
  row_scope :: "string option"
  row_context :: "string option"
  row_outcome :: "string option"
  row_approval :: "string option"
  row_details :: "string option"

text \<open>The table in insertion order, and the last id \<open>AUTOINCREMENT\<close> gave out.\<close>

record AuditLogger =
  audit_log :: "AuditRow list"
  last_rowid :: nat

definition new_AuditLogger :: AuditLogger where
  "new_AuditLogger = \<lparr>audit_log = [], last_rowid = 0\<rparr>"

definition AuditLogger_log ::
  "host \<Rightarrow> AuditLogger \<Rightarrow> AuditEntry \<Rightarrow> real \<Rightarrow> nat \<times> AuditLogger" where
  "AuditLogger_log h logger entry now =
     (let rowid = last_rowid logger + 1;
          row =
            \<lparr>row_id = rowid,
             row_timestamp =
               (if e_timestamp entry \<noteq> [] then e_timestamp entry else toISOString h now),
             row_event = e_event entry,
             row_policy = e_policy entry,
             row_agent_id = e_agent_id entry,
             row_skill_id = e_skill_id entry,
             row_purpose = e_purpose entry,
             row_token_id = e_token_id entry,
             row_credential_name = e_credential_name entry,
             row_scope = map_option (\<lambda>s. JSON_stringify h (JObj s)) (e_scope entry),
             row_context = map_option (\<lambda>s. JSON_stringify h (JObj s)) (e_context entry),
             row_outcome = e_outcome entry,
             row_approval = e_approval entry,
             row_details = e_details entry\<rparr>
      in (rowid, logger\<lparr>audit_log := audit_log logger @ [row], last_rowid := rowid\<rparr>))"

text \<open>
  SQLite's \<open>LIKE\<close>: \<open>%\<close> matches any run of characters, \<open>_\<close> any one character, and
  any other character matches itself, letters of ASCII without regard to case.
\<close>

definition ascii_lower :: "char \<Rightarrow> char" where
  "ascii_lower c =
     (let n = (of_char c :: nat) in if 65 \<le> n \<and> n \<le> 90 then char_of (n + 32) else c)"

fun sql_like :: "string \<Rightarrow> string \<Rightarrow> bool" where
  "sql_like [] s = (s = [])"
| "sql_like (c # p) [] = (if c = CHR ''%'' then sql_like p [] else False)"
| "sql_like (c # p) (x # xs) =
     (if c = CHR ''%'' then sql_like p (x # xs) \<or> sql_like (c # p) xs
      else (c = CHR ''_'' \<or> ascii_lower c = ascii_lower x) \<and> sql_like p xs)"

text \<open>
  One turn of the loop of \<open>getMonthlySpending\<close>: the total after a row with the given
  \<open>details\<close>. Reading \<open>.amount\<close> of \<open>null\<close> throws inside the \<open>try\<close>; of any value that is
  not an object it gives \<open>undefined\<close>.
\<close>

definition add_amount :: "host \<Rightarrow> number \<Rightarrow> string option \<Rightarrow> number" where
  "add_amount h sofar details =
     (case details of
        None \<Rightarrow> sofar
      | Some d \<Rightarrow>
          if d = [] then sofar
          else
            (case JSON_parse h d of
               None \<Rightarrow> sofar
             | Some JNull \<Rightarrow> sofar
             | Some (JObj parsed) \<Rightarrow>
                 (case map_of parsed ''amount'' of
                    Some (JNum a) \<Rightarrow> num_add h sofar a
                  | _ \<Rightarrow> sofar)
             | Some _ \<Rightarrow> sofar))"

fun spending_loop :: "host \<Rightarrow> string option list \<Rightarrow> number \<Rightarrow> number" where
  "spending_loop h [] sofar = sofar"
| "spending_loop h (details # rest) sofar = spending_loop h rest (add_amount h sofar details)"

text \<open>
  The statement has no \<open>ORDER BY\<close>: SQLite returns the selected rows in an order of its
  choosing, here the rearrangement \<open>returned\<close> of the rows that match. The loop adds in
  that order, starting from 0.
\<close>

definition AuditLogger_getMonthlySpending ::
  "host \<Rightarrow> AuditLogger \<Rightarrow> string \<Rightarrow> string option \<Rightarrow> real \<Rightarrow>
     (AuditRow list \<Rightarrow> AuditRow list) \<Rightarrow> number" where
  "AuditLogger_getMonthlySpending h logger credentialName month now returned =
     (let targetMonth = (if truthy_str month then the_default [] month
                         else take 7 (toISOString h now));
          selected =
            returned
              (filter
                 (\<lambda>row. row_event row = credential_used \<and>
                        row_credential_name row = Some credentialName \<and>
                        sql_like (targetMonth @ ''%'') (row_timestamp row))
                 (audit_log logger))
      in spending_loop h (map row_details selected) (Finite 0))"

subsection \<open>The specification's reading of monthly spending\<close>

text \<open>A prefix of an ISO timestamp up to the month or beyond: digits and hyphens.\<close>

definition month_prefix :: "string \<Rightarrow> bool" where
  "month_prefix m = (m \<noteq> [] \<and> list_all (\<lambda>c. c \<in> set ''0123456789-'') m)"

text \<open>The numeric \<open>amount\<close> field of a row's \<open>details\<close>, when the text parses to an object
  that has one.\<close>

definition details_amount :: "host \<Rightarrow> AuditRow \<Rightarrow> number option" where
  "details_amount h row =
     (case row_details row of
        None \<Rightarrow> None
      | Some d \<Rightarrow>
          (case JSON_parse h d of
             Some (JObj parsed) \<Rightarrow>
               (case map_of parsed ''amount'' of Some (JNum a) \<Rightarrow> Some a | _ \<Rightarrow> None)
           | _ \<Rightarrow> None))"

text \<open>The \<open>credential_used\<close> entries of credential \<open>c\<close> whose timestamp begins with \<open>m\<close>.\<close>

definition used_entries :: "AuditRow list \<Rightarrow> string \<Rightarrow> string \<Rightarrow> AuditRow list" where
  "used_entries table c m =
     filter
       (\<lambda>row. row_event row = credential_used \<and> row_credential_name row = Some c \<and>
              prefix m (row_timestamp row))
       table"

text \<open>
  The sum of the amounts of a list of entries: JavaScript's sum of the numeric \<open>amount\<close>
  fields, taken from 0 through the entries in their order; an entry without one is
  passed over.
\<close>

definition sum_of_amounts :: "host \<Rightarrow> AuditRow list \<Rightarrow> number" where
  "sum_of_amounts h entries =
     foldl (num_add h) (Finite 0) (List.map_filter (details_amount h) entries)"

section \<open>Vault (vault/crypto.ts, vault/schema.ts, vault/vault.ts)\<close>

type_synonym bytes = "8 word list"

text \<open>
  The primitives of \<open>node:crypto\<close> and \<open>@node-rs/argon2\<close> the vault calls: the raw
  Argon2id hash of a passphrase and salt (memory 64 MiB, 3 passes, 1 lane, 32 bytes),
  HKDF-SHA256 (key material, salt, info, length), AES-256-GCM encryption (key, nonce,
  plaintext, giving ciphertext and tag) and decryption (key, nonce, tag, ciphertext,
  failing when the tag does not verify), and base64.
\<close>

record primitives =
  argon2id :: "string \<Rightarrow> bytes \<Rightarrow> bytes"
  hkdf_sha256 :: "bytes \<Rightarrow> bytes \<Rightarrow> bytes \<Rightarrow> nat \<Rightarrow> bytes"
  aes_256_gcm_encrypt :: "bytes \<Rightarrow> bytes \<Rightarrow> string \<Rightarrow> bytes \<times> bytes"
  aes_256_gcm_decrypt :: "bytes \<Rightarrow> bytes \<Rightarrow> bytes \<Rightarrow> bytes \<Rightarrow> string option"
  base64_encode :: "bytes \<Rightarrow> string"
  base64_decode :: "string \<Rightarrow> bytes"

definition AES_KEY_LENGTH :: nat where
  "AES_KEY_LENGTH = 32"

definition HKDF_INFO :: bytes where
  "HKDF_INFO = map (\<lambda>c. of_nat (of_char c)) ''checkout-wallet-v1''"

record EncryptedPayload =
  ciphertext :: bytes
  iv :: bytes
  authTag :: bytes

definition deriveKey :: "primitives \<Rightarrow> string \<Rightarrow> bytes \<Rightarrow> bytes" where
  "deriveKey prim passphrase salt =
     (let rawHash = argon2id prim passphrase salt
      in hkdf_sha256 prim rawHash salt HKDF_INFO AES_KEY_LENGTH)"

text \<open>\<open>encrypt\<close> draws a 12-byte nonce (\<open>randomBytes\<close>), here \<open>nonce\<close>.\<close>

definition encrypt :: "primitives \<Rightarrow> string \<Rightarrow> bytes \<Rightarrow> bytes \<Rightarrow> EncryptedPayload" where
  "encrypt prim plaintext k nonce =
     (let (encrypted, tag) = aes_256_gcm_encrypt prim k nonce plaintext
      in \<lparr>ciphertext = encrypted, iv = nonce, authTag = tag\<rparr>)"

definition decrypt :: "primitives \<Rightarrow> EncryptedPayload \<Rightarrow> bytes \<Rightarrow> string option" where
  "decrypt prim payload k =
     aes_256_gcm_decrypt prim k (iv payload) (authTag payload) (ciphertext payload)"

datatype CredentialType = api_key | payment_token | oauth_token | secret | certificate

text \<open>A row of the table \<open>credentials\<close>.\<close>

record CredentialRecord =
  cr_id :: string
  cr_name :: string
  cr_type :: CredentialType
  encrypted_data :: bytes
  cr_iv :: bytes
  auth_tag :: bytes
  cr_metadata :: string
  cr_created_at :: string
  cr_updated_at :: string

record Credential =
  c_id :: string
  c_name :: string
  c_type :: CredentialType
  c_value :: string
  c_metadata :: json
  c_created_at :: string
  c_updated_at :: string

record CredentialSummary =
  s_id :: string
  s_name :: string
  s_type :: CredentialType
  s_metadata :: json
  s_created_at :: string
  s_updated_at :: string

text \<open>
  A vault: its database (open or closed, the table \<open>wallet_meta\<close> as an association
  list, the table \<open>credentials\<close> in insertion order) and the field \<open>key\<close>, which is
  \<open>null\<close> or a reference to a \<open>Buffer\<close>. The contents of the buffers the vault has
  allocated are kept by address in \<open>heap\<close>, so that dropping a reference and
  overwriting a buffer are different things.
\<close>

record Vault =
  db_open :: bool
  wallet_meta :: "(string \<times> string) list"
  credentials :: "CredentialRecord list"
  key :: "nat option"
  heap :: "nat \<Rightarrow> bytes"
  next_buffer :: nat

definition new_Vault :: "(string \<times> string) list \<Rightarrow> CredentialRecord list \<Rightarrow> Vault" where
  "new_Vault meta rows =
     \<lparr>db_open = True, wallet_meta = meta, credentials = rows, key = None,
      heap = (\<lambda>a. []), next_buffer = 0\<rparr>"

text \<open>\<open>this.key = await deriveKey(...)\<close>: the derived key is a fresh buffer.\<close>

definition store_key :: "Vault \<Rightarrow> bytes \<Rightarrow> Vault" where
  "store_key v k =
     v\<lparr>key := Some (next_buffer v), heap := (heap v)(next_buffer v := k),
       next_buffer := next_buffer v + 1\<rparr>"

text \<open>\<open>initialize\<close> draws the salt (\<open>generateSalt\<close>), here \<open>salt\<close>.\<close>

definition Vault_initialize :: "primitives \<Rightarrow> Vault \<Rightarrow> string \<Rightarrow> bytes \<Rightarrow> error + Vault" where
  "Vault_initialize prim v passphrase salt =
     (if \<not> db_open v then Inl DatabaseClosed
      else if map_of (wallet_meta v) ''salt'' \<noteq> None then Inl AlreadyInitialized
      else
        (let v1 = store_key v (deriveKey prim passphrase salt)
         in Inr (v1\<lparr>wallet_meta :=
                     AList.update ''version'' ''1''
                       (AList.update ''salt'' (base64_encode prim salt) (wallet_meta v1))\<rparr>)))"

definition Vault_unlock :: "primitives \<Rightarrow> Vault \<Rightarrow> string \<Rightarrow> error + Vault" where
  "Vault_unlock prim v passphrase =
     (if \<not> db_open v then Inl DatabaseClosed
      else
        (case map_of (wallet_meta v) ''salt'' of
           None \<Rightarrow> Inl NotInitialized
         | Some text \<Rightarrow>
             Inr (store_key v (deriveKey prim passphrase (base64_decode prim text)))))"

definition ensureUnlocked :: "Vault \<Rightarrow> error + nat" where
  "ensureUnlocked v = (case key v of None \<Rightarrow> Inl VaultLocked | Some a \<Rightarrow> Inr a)"

text \<open>
  \<open>addCredential\<close> draws the record id (\<open>randomUUID\<close>), reads the clock and, inside
  \<open>encrypt\<close>, draws the nonce. The table has \<open>id\<close> as primary key and \<open>name\<close> unique.
\<close>

definition Vault_addCredential ::
  "primitives \<Rightarrow> host \<Rightarrow> Vault \<Rightarrow> string \<Rightarrow> CredentialType \<Rightarrow> string \<Rightarrow> (string \<times> string) list \<Rightarrow>
     string \<Rightarrow> real \<Rightarrow> bytes \<Rightarrow> error + string \<times> Vault" where
  "Vault_addCredential prim h v n ty val metadata uuid now nonce =
     (case ensureUnlocked v of
        Inl e \<Rightarrow> Inl e
      | Inr a \<Rightarrow>
          (let payload = encrypt prim val (heap v a) nonce;
               row =
                 \<lparr>cr_id = uuid, cr_name = n, cr_type = ty,
                  encrypted_data = ciphertext payload, cr_iv = iv payload,
                  auth_tag = authTag payload,
                  cr_metadata = JSON_stringify h (JObj (map (\<lambda>(k, x). (k, JStr x)) metadata)),
                  cr_created_at = toISOString h now, cr_updated_at = toISOString h now\<rparr>
           in if \<not> db_open v then Inl DatabaseClosed
              else if uuid \<in> cr_id ` set (credentials v) \<or> n \<in> cr_name ` set (credentials v)
                then Inl UniqueConstraint
              else Inr (uuid, v\<lparr>credentials := credentials v @ [row]\<rparr>)))"

definition Vault_getCredential ::
  "primitives \<Rightarrow> host \<Rightarrow> Vault \<Rightarrow> string \<Rightarrow> error + Credential option" where
  "Vault_getCredential prim h v n =
     (case ensureUnlocked v of
        Inl e \<Rightarrow> Inl e
      | Inr a \<Rightarrow>
          if \<not> db_open v then Inl DatabaseClosed
          else
            (case find (\<lambda>row. cr_name row = n) (credentials v) of
               None \<Rightarrow> Inr None
             | Some row \<Rightarrow>
                 (case decrypt prim
                         \<lparr>ciphertext = encrypted_data row, iv = cr_iv row,
                          authTag = auth_tag row\<rparr> (heap v a) of
                    None \<Rightarrow> Inl AuthenticationFailed
                  | Some val \<Rightarrow>
                      (case JSON_parse h (cr_metadata row) of
                         None \<Rightarrow> Inl MetadataSyntaxError
                       | Some md \<Rightarrow>
                           Inr (Some \<lparr>c_id = cr_id row, c_name = cr_name row,
                                      c_type = cr_type row, c_value = val, c_metadata = md,
                                      c_created_at = cr_created_at row,
                                      c_updated_at = cr_updated_at row\<rparr>)))))"

fun summaries :: "host \<Rightarrow> CredentialRecord list \<Rightarrow> error + CredentialSummary list" where
  "summaries h [] = Inr []"
| "summaries h (row # rows) =
     (case JSON_parse h (cr_metadata row) of
        None \<Rightarrow> Inl MetadataSyntaxError
      | Some md \<Rightarrow>
          (case summaries h rows of
             Inl e \<Rightarrow> Inl e
           | Inr rest \<Rightarrow>
               Inr (\<lparr>s_id = cr_id row, s_name = cr_name row, s_type = cr_type row,
                     s_metadata = md, s_created_at = cr_created_at row,
                     s_updated_at = cr_updated_at row\<rparr> # rest)))"

definition Vault_listCredentials :: "host \<Rightarrow> Vault \<Rightarrow> error + CredentialSummary list" where
  "Vault_listCredentials h v =
     (case ensureUnlocked v of
        Inl e \<Rightarrow> Inl e
      | Inr a \<Rightarrow> if \<not> db_open v then Inl DatabaseClosed else summaries h (credentials v))"

definition Vault_removeCredential :: "Vault \<Rightarrow> string \<Rightarrow> error + bool \<times> Vault" where
  "Vault_removeCredential v n =
     (case ensureUnlocked v of
        Inl e \<Rightarrow> Inl e
      | Inr a \<Rightarrow>
          if \<not> db_open v then Inl DatabaseClosed
          else
            Inr (0 < length (filter (\<lambda>row. cr_name row = n) (credentials v)),
                 v\<lparr>credentials := filter (\<lambda>row. cr_name row \<noteq> n) (credentials v)\<rparr>))"

definition Vault_close :: "Vault \<Rightarrow> Vault" where
  "Vault_close v = v\<lparr>key := None, db_open := False\<rparr>"

section \<open>The tool \<open>checkout_request_credential\<close> (tools/request-credential.ts)\<close>

record deps =
  d_vault :: Vault
  d_policyLoader :: PolicyLoader
  d_auditLogger :: AuditLogger
  d_tokenStore :: TokenStore

text \<open>
  What one invocation reads from its environment: \<open>new Date()\<close> for the timestamp of
  the request event, \<open>new Date()\<close> inside \<open>getMonthlySpending\<close> and the order in which
  its query returns the rows, \<open>new Date()\<close> for the timestamp of the outcome event,
  \<open>Date.now()\<close> and \<open>randomUUID()\<close> inside \<open>issue\<close>.
\<close>

record readings =
  date_requested :: real
  date_month :: real
  rows_returned :: "AuditRow list \<Rightarrow> AuditRow list"
  date_outcome :: real
  date_issue :: real
  random_uuid :: string

text \<open>
  The object the handler serialises into its reply: status \<open>granted\<close> (token id,
  credential value, expiry as ISO text, scope), \<open>require_approval\<close> (reason, policy),
  \<open>denied\<close> (reason) or \<open>error\<close> (reason).
\<close>

datatype response =
    Granted string string string object
  | ApprovalNeeded string "string option"
  | Denied string
  | Failed string

definition requested_entry :: "host \<Rightarrow> CredentialRequest \<Rightarrow> real \<Rightarrow> AuditEntry" where
  "requested_entry h request now =
     \<lparr>e_timestamp = toISOString h now, e_event = credential_requested, e_policy = None,
      e_agent_id = Some (agent_id request), e_skill_id = skill_id request,
      e_purpose = Some (purpose request), e_token_id = None,
      e_credential_name = Some (credential_name request), e_scope = None, e_context = None,
      e_outcome = None, e_approval = None, e_details = None\<rparr>"

definition outcome_entry ::
  "host \<Rightarrow> CredentialRequest \<Rightarrow> PolicyEvalResult \<Rightarrow> AuditEvent \<Rightarrow> string \<Rightarrow> real \<Rightarrow> AuditEntry" where
  "outcome_entry h request result ev outcome now =
     \<lparr>e_timestamp = toISOString h now, e_event = ev, e_policy = policy_name result,
      e_agent_id = Some (agent_id request), e_skill_id = skill_id request,
      e_purpose = Some (purpose request), e_token_id = None,
      e_credential_name = Some (credential_name request), e_scope = None, e_context = None,
      e_outcome = Some outcome, e_approval = None, e_details = Some (reason result)\<rparr>"

definition granted_entry ::
  "host \<Rightarrow> CredentialRequest \<Rightarrow> PolicyEvalResult \<Rightarrow> ScopedToken \<Rightarrow> real \<Rightarrow> AuditEntry" where
  "granted_entry h request result token now =
     \<lparr>e_timestamp = toISOString h now, e_event = credential_granted,
      e_policy = policy_name result,
      e_agent_id = Some (agent_id request), e_skill_id = skill_id request,
      e_purpose = Some (purpose request), e_token_id = Some (token_id token),
      e_credential_name = Some (credential_name request), e_scope = Some (tok_scope token),
      e_context = None, e_outcome = Some ''granted'', e_approval = None, e_details = None\<rparr>"

definition request_credential ::
  "primitives \<Rightarrow> host \<Rightarrow> readings \<Rightarrow> deps \<Rightarrow> CredentialRequest \<Rightarrow> deps \<times> (error + response)" where
  "request_credential prim h env d params =
     (let request = params\<lparr>req_context := None\<rparr>;
          log1 = snd (AuditLogger_log h (d_auditLogger d)
                        (requested_entry h request (date_requested env)) (date_requested env));
          d1 = d\<lparr>d_auditLogger := log1\<rparr>;
          policies = listPoliciesForAgent (d_policyLoader d) (agent_id request) (skill_id request);
          monthlySpending =
            AuditLogger_getMonthlySpending h log1 (credential_name request) None (date_month env)
              (rows_returned env);
          result = evaluateFirst h policies request (Some monthlySpending)
      in
        if decision result = Deny then
          (d1\<lparr>d_auditLogger :=
                snd (AuditLogger_log h log1
                       (outcome_entry h request result credential_denied ''denied''
                          (date_outcome env)) (date_outcome env))\<rparr>,
           Inr (Denied (reason result)))
        else if decision result = RequireApproval then
          (d1\<lparr>d_auditLogger :=
                snd (AuditLogger_log h log1
                       (outcome_entry h request result approval_required ''pending_approval''
                          (date_outcome env)) (date_outcome env))\<rparr>,
           Inr (ApprovalNeeded (reason result) (policy_name result)))
        else
          (case Vault_getCredential prim h (d_vault d) (credential_name request) of
             Inl e \<Rightarrow> (d1, Inl e)
           | Inr None \<Rightarrow>
               (d1, Inr (Failed (''Credential '' @ quoted (credential_name request) @
                                 '' not found in vault.'')))
           | Inr (Some credential) \<Rightarrow>
               (let matchingPolicy =
                      (case policy_name result of
                         None \<Rightarrow> None
                       | Some n \<Rightarrow> getPolicy (d_policyLoader d) n);
                    (token, store') =
                      TokenStore_issue (d_tokenStore d)
                        \<lparr>ip_credential_name = c_name credential,
                         ip_credential_value = c_value credential,
                         ip_policy_name = the_default [] (policy_name result),
                         ip_agent_id = agent_id request,
                         ip_skill_id = skill_id request,
                         ip_scope = scope result,
                         ip_ttl = (case matchingPolicy of None \<Rightarrow> None | Some p \<Rightarrow> p_ttl p)\<rparr>
                        (date_issue env) (random_uuid env);
                    d2 = d1\<lparr>d_tokenStore := store',
                            d_auditLogger :=
                              snd (AuditLogger_log h log1
                                     (granted_entry h request result token (date_outcome env))
                                     (date_outcome env))\<rparr>
                in
                  (case Date_toISOString h (expires_at token) of
                     None \<Rightarrow> (d2, Inl RangeError)
                   | Some expiry \<Rightarrow>
                       (d2, Inr (Granted (token_id token) (credential_value token) expiry
                                   (tok_scope token)))))))"

text \<open>The audit events an invocation appended, given the log before and after.\<close>

definition appended_events :: "deps \<Rightarrow> deps \<Rightarrow> AuditEvent list" where
  "appended_events before after =
     map row_event
       (drop (length (audit_log (d_auditLogger before))) (audit_log (d_auditLogger after)))"

text \<open>
  The outcome event that belongs to a reply. The one exception the handler itself can
  raise, the \<open>RangeError\<close> of an expiry beyond the range of \<open>Date\<close>, comes after the
  token is issued and \<open>credential_granted\<close> is logged.
\<close>

fun outcome_events :: "error + response \<Rightarrow> AuditEvent list" where
  "outcome_events (Inr (Denied why)) = [credential_denied]"
| "outcome_events (Inr (ApprovalNeeded why p)) = [approval_required]"
| "outcome_events (Inr (Granted i v e sc)) = [credential_granted]"
| "outcome_events (Inr (Failed why)) = []"
| "outcome_events (Inl RangeError) = [credential_granted]"
| "outcome_events (Inl e) = []"

section \<open>Sample data: the policy and requests of the integration test\<close>

text \<open>
  A host for the examples. The amounts printed in the examples are non-negative
  integers, which JavaScript prints as their decimal digits; the sums of the examples
  are sums of doubles whose exact sum is a double, so that the addition does not round;
  the sample CEL evaluator knows the one expression the tests use.
\<close>

fun show_nat :: "nat \<Rightarrow> string" where
  "show_nat n =
     (if n < 10 then [''0123456789'' ! n]
      else show_nat (n div 10) @ [''0123456789'' ! (n mod 10)])"

declare show_nat.simps [simp del]

definition sample_cel :: "string \<Rightarrow> object \<Rightarrow> cel_outcome" where
  "sample_cel c ctx =
     (if c = ''purpose.contains(\"deploy\")'' then
        (case map_of ctx ''purpose'' of
           Some (JStr p) \<Rightarrow> CelValue (JBool (str_includes p ''deploy''))
         | _ \<Rightarrow> CelThrow ''no such overload'')
      else CelThrow ''unsupported expression'')"

text \<open>
  10:00:00 and 10:01:00 UTC on 15 January 2025 are 1736935200000 and 1736935260000
  milliseconds after the epoch.
\<close>

definition sample_toISOString :: "real \<Rightarrow> string" where
  "sample_toISOString t =
     (if t = 1736935200000 then ''2025-01-15T10:00:00.000Z''
      else if t = 1736935260000 then ''2025-01-15T10:01:00.000Z''
      else ''1970-01-01T00:00:00.000Z'')"

definition sample_JSON_stringify :: "json \<Rightarrow> string" where
  "sample_JSON_stringify v = (if v = JObj [] then ''{}'' else ''{...}'')"

definition sample_JSON_parse :: "string \<Rightarrow> json option" where
  "sample_JSON_parse s =
     (if s = ''{\"amount\":25.5}'' then Some (JObj [(''amount'', JNum (Finite 25.5))])
      else if s = ''{\"amount\":14.5}'' then Some (JObj [(''amount'', JNum (Finite 14.5))])
      else if s = ''{\"amount\":100}'' then Some (JObj [(''amount'', JNum (Finite 100))])
      else if s = ''{\"amount\":\"ten\"}'' then Some (JObj [(''amount'', JStr ''ten'')])
      else if s = ''null'' then Some JNull
      else if s = ''{}'' then Some (JObj [])
      else None)"

fun sample_num_text :: "number \<Rightarrow> string" where
  "sample_num_text (Finite x) = show_nat (nat \<lfloor>x\<rfloor>)"
| "sample_num_text PosInfinity = ''Infinity''"
| "sample_num_text NegInfinity = ''-Infinity''"
| "sample_num_text NaN = ''NaN''"

fun sample_num_add :: "number \<Rightarrow> number \<Rightarrow> number" where
  "sample_num_add (Finite a) (Finite b) = Finite (a + b)"
| "sample_num_add (Finite a) PosInfinity = PosInfinity"
| "sample_num_add (Finite a) NegInfinity = NegInfinity"
| "sample_num_add PosInfinity (Finite b) = PosInfinity"
| "sample_num_add PosInfinity PosInfinity = PosInfinity"
| "sample_num_add NegInfinity (Finite b) = NegInfinity"
| "sample_num_add NegInfinity NegInfinity = NegInfinity"
| "sample_num_add x y = NaN"

definition sample_host :: host where
  "sample_host =
     \<lparr>num_text = sample_num_text,
      num_add = sample_num_add,
      String_of = (\<lambda>v. case v of JBool True \<Rightarrow> ''true'' | JBool False \<Rightarrow> ''false''
                          | _ \<Rightarrow> ''null''),
      celEvaluate = sample_cel,
      toISOString = sample_toISOString,
      JSON_stringify = sample_JSON_stringify,
      JSON_parse = sample_JSON_parse\<rparr>"

definition test_stripe :: Policy where
  "test_stripe =
     \<lparr>p_name = ''test-stripe'', p_description = None, p_credential = ''stripe-key'',
      p_grant_to = \<lparr>grant_agent_id = Some (Array [''test-agent'']), grant_skill_id = None\<rparr>,
      p_deny = None, p_actions = Some [''charge''],
      p_budget = Some \<lparr>max_per_transaction = Some (Finite 100),
                       max_per_month = Some (Finite 500), budget_currency = None\<rparr>,
      p_approval_threshold = Some (Finite 75), p_condition = None, p_scope = None,
      p_ttl = Some 60\<rparr>"

definition charge_request :: "string \<Rightarrow> real \<Rightarrow> CredentialRequest" where
  "charge_request agent a =
     \<lparr>credential_name = ''stripe-key'', agent_id = agent, skill_id = None,
      purpose = ''charge customer'', amount = Some (Finite a), currency = None,
      action = Some ''charge'', req_context = None\<rparr>"




text \<open>A document in which two policies share the name \<open>test-stripe\<close>.\<close>

definition blank_policy :: "string \<Rightarrow> string \<Rightarrow> string_or_array option \<Rightarrow> Policy" where
  "blank_policy n c g =
     \<lparr>p_name = n, p_description = None, p_credential = c,
      p_grant_to = \<lparr>grant_agent_id = g, grant_skill_id = None\<rparr>,
      p_deny = None, p_actions = None, p_budget = None, p_approval_threshold = None,
      p_condition = None, p_scope = None, p_ttl = None\<rparr>"



definition used_row :: "nat \<Rightarrow> string \<Rightarrow> string \<Rightarrow> string option \<Rightarrow> AuditRow" where
  "used_row i ts c d =
     \<lparr>row_id = i, row_timestamp = ts, row_event = credential_used, row_policy = None,
      row_agent_id = None, row_skill_id = None, row_purpose = None, row_token_id = None,
      row_credential_name = Some c, row_scope = None, row_context = None, row_outcome = None,
      row_approval = None, row_details = d\<rparr>"

definition spending_log :: AuditLogger where
  "spending_log =
     \<lparr>audit_log =
        [used_row 1 ''2025-01-15T10:00:00Z'' ''stripe-key'' (Some ''{\"amount\":25.5}''),
         used_row 2 ''2025-01-20T10:00:00Z'' ''stripe-key'' (Some ''{\"amount\":14.5}''),
         used_row 3 ''2025-02-01T10:00:00Z'' ''stripe-key'' (Some ''{\"amount\":100}''),
         used_row 4 ''2025-01-21T10:00:00Z'' ''stripe-key'' (Some ''{\"amount\":\"ten\"}''),
         used_row 5 ''2025-01-22T10:00:00Z'' ''stripe-key'' (Some ''refund pending''),
         used_row 6 ''2025-01-23T10:00:00Z'' ''github-token'' (Some ''{\"amount\":100}'')],
      last_rowid = 6\<rparr>"

text \<open>
  Stand-ins for the cryptographic primitives, for the examples only: the "hash" is the
  passphrase's bytes, the "key" its first 32 bytes padded with the salt and sevens, the
  "ciphertext" the plaintext's bytes, the "tag" the first 16 bytes of the key.
\<close>

definition sample_primitives :: primitives where
  "sample_primitives =
     \<lparr>argon2id = (\<lambda>p s. map (\<lambda>c. of_nat (of_char c)) p),
      hkdf_sha256 = (\<lambda>ikm s info n. take n (ikm @ s @ replicate n 7)),
      aes_256_gcm_encrypt = (\<lambda>k nonce p. (map (\<lambda>c. of_nat (of_char c)) p, take 16 k)),
      aes_256_gcm_decrypt =
        (\<lambda>k nonce tag ct. if tag = take 16 k then Some (map (\<lambda>b. char_of (unat b)) ct)
                           else None),
      base64_encode = (\<lambda>b. map (\<lambda>x. char_of (unat x)) b),
      base64_decode = (\<lambda>s. map (\<lambda>c. of_nat (of_char c)) s)\<rparr>"

text \<open>
  The integration test's setup: a vault initialised with the passphrase
  \<open>integration-test-pass\<close>, the policy \<open>test-stripe\<close> loaded, an empty audit log and
  token store. In \<open>empty_vault_deps\<close> the credential \<open>stripe-key\<close> has not been added
  to the vault.
\<close>

definition initialized_vault :: Vault where
  "initialized_vault =
     (case Vault_initialize sample_primitives (new_Vault [] []) ''integration-test-pass''
             [1, 2, 3, 4] of
        Inl e \<Rightarrow> new_Vault [] []
      | Inr v \<Rightarrow> v)"

definition stripe_vault :: Vault where
  "stripe_vault =
     (case Vault_addCredential sample_primitives sample_host initialized_vault ''stripe-key''
             api_key ''test-credential-value-abc123'' [] ''cred-1'' 1736935200000 [9, 9, 9] of
        Inl e \<Rightarrow> initialized_vault
      | Inr (i, v) \<Rightarrow> v)"

definition test_loader :: PolicyLoader where
  "test_loader = \<lparr>policy_map = [(''test-stripe'', test_stripe)]\<rparr>"

definition empty_vault_deps :: deps where
  "empty_vault_deps =
     \<lparr>d_vault = initialized_vault, d_policyLoader = test_loader,
      d_auditLogger = new_AuditLogger, d_tokenStore = new_TokenStore\<rparr>"

definition test_deps :: deps where
  "test_deps = empty_vault_deps\<lparr>d_vault := stripe_vault\<rparr>"

definition test_readings :: readings where
  "test_readings =
     \<lparr>date_requested = 1736935200000, date_month = 1736935200000,
      rows_returned = (\<lambda>rows. rows), date_outcome = 1736935200000, date_issue = 1736935200000, random_uuid = ''token-1''\<rparr>"

section \<open>Theorems\<close>

subsection \<open>Policy engine\<close>

lemma first_permitted_find:
  "first_permitted h ps r ms =
     map_option (\<lambda>p. evaluate h p r ms)
       (find (\<lambda>p. decision (evaluate h p r ms) = Allow \<or>
                   decision (evaluate h p r ms) = RequireApproval) ps)"
  by (induction ps) (auto simp: Let_def)

lemma includes_in_template: "str_includes (a @ b @ c @ quoted n @ d) n"
  unfolding str_includes_def sublist_def quoted_def
  by (rule exI[of _ "a @ b @ c @ [CHR 0x27]"], rule exI[of _ "[CHR 0x27] @ d"]) simp

lemma evaluate_decision:
  "decision (evaluate h p r ms) =
     (case first_failing h p r ms of None \<Rightarrow> Allow | Some k \<Rightarrow> check_decision k)"
  by (simp add: evaluate_def first_failing_def checks_in_order_def verdict_def)

lemma evaluate_policy_name: "policy_name (evaluate h p r ms) = Some (p_name p)"
  by (simp add: evaluate_def verdict_def)

lemma evaluate_scope:
  "scope (evaluate h p r ms) =
     (if decision (evaluate h p r ms) = Deny then None else p_scope p)"
  by (simp add: evaluate_def verdict_def)

lemma evaluate_all_passed:
  "first_failing h p r ms = None \<Longrightarrow> reason (evaluate h p r ms) = ''All policy checks passed.''"
  by (simp add: evaluate_def first_failing_def checks_in_order_def verdict_def
      split: if_splits)

lemma evaluate_reason_names:
  assumes "first_failing h p r ms = Some k" and "names_in_reason k"
  shows "str_includes (reason (evaluate h p r ms)) (p_name p)"
proof -
  from assms have "deny_listed p r \<or> agent_not_granted p r \<or> skill_not_granted p r \<or>
      action_not_allowed p r"
    by (auto simp: first_failing_def checks_in_order_def names_in_reason_def split: if_splits)
  then consider (a) "deny_listed p r"
    | (b) "\<not> deny_listed p r" "agent_not_granted p r"
    | (c) "\<not> deny_listed p r" "\<not> agent_not_granted p r" "skill_not_granted p r"
    | (d) "\<not> deny_listed p r" "\<not> agent_not_granted p r" "\<not> skill_not_granted p r"
          "action_not_allowed p r"
    by blast
  then show ?thesis
  proof cases
    case a
    then show ?thesis
      unfolding evaluate_def verdict_def
      by (simp only: if_True PolicyEvalResult.select_convs includes_in_template)
  next
    case b
    then show ?thesis
      unfolding evaluate_def verdict_def
      by (simp only: if_True if_False PolicyEvalResult.select_convs includes_in_template)
  next
    case c
    then show ?thesis
      unfolding evaluate_def verdict_def
      by (simp only: if_True if_False PolicyEvalResult.select_convs includes_in_template)
  next
    case d
    then show ?thesis
      unfolding evaluate_def verdict_def
      by (simp only: if_True if_False PolicyEvalResult.select_convs includes_in_template)
  qed
qed

lemma evaluate_ordered: "evaluate h p r ms = ordered_evaluate h p r ms"
  by (simp add: evaluate_def ordered_evaluate_def first_failing_def checks_in_order_def
      verdict_def check_result_def all_passed_def the_default_def)

text \<open>
  C3, as amended. \<open>evaluate\<close> goes through the eight checks in this exact order:
  explicit deny list, agent scope, skill scope (which a request without \<open>skill_id\<close>
  never fails), actions, per-transaction budget, monthly budget, approval threshold,
  condition expression. Its result is the result of the first check in that order that
  fails: that check's own reason text, the decision \<open>require_approval\<close> with the
  policy's scope for the approval threshold and \<open>deny\<close> without scope for every other
  check. The result's \<open>policy_name\<close> field always names the policy; the reason text
  contains the policy's name when the failing check is one of the first four. When no
  check fails the result is \<open>allow\<close> with reason "All policy checks passed." and the
  policy's scope.
\<close>

theorem evaluate_check_order:
  "evaluate h p r ms =
     (case find (check_fails h p r ms)
             [ExplicitDeny, GrantAgent, GrantSkill, Actions, PerTransaction, Monthly,
              ApprovalThreshold, ConditionExpr] of
        None \<Rightarrow>
          \<lparr>decision = Allow, reason = ''All policy checks passed.'', scope = p_scope p,
           policy_name = Some (p_name p)\<rparr>
      | Some k \<Rightarrow>
          \<lparr>decision = check_decision k, reason = check_reason h p r ms k,
           scope = (if k = ApprovalThreshold then p_scope p else None),
           policy_name = Some (p_name p)\<rparr>) \<and>
   policy_name (evaluate h p r ms) = Some (p_name p) \<and>
   decision (evaluate h p r ms) =
     (case first_failing h p r ms of None \<Rightarrow> Allow | Some k \<Rightarrow> check_decision k) \<and>
   scope (evaluate h p r ms) =
     (if decision (evaluate h p r ms) = Deny then None else p_scope p) \<and>
   (skill_id r = None \<longrightarrow> \<not> check_fails h p r ms GrantSkill) \<and>
   (first_failing h p r ms = None \<longrightarrow>
      reason (evaluate h p r ms) = ''All policy checks passed.'') \<and>
   (\<forall>k. first_failing h p r ms = Some k \<and> names_in_reason k \<longrightarrow>
      str_includes (reason (evaluate h p r ms)) (p_name p))"
proof -
  have "evaluate h p r ms =
     (case find (check_fails h p r ms)
             [ExplicitDeny, GrantAgent, GrantSkill, Actions, PerTransaction, Monthly,
              ApprovalThreshold, ConditionExpr] of
        None \<Rightarrow>
          \<lparr>decision = Allow, reason = ''All policy checks passed.'', scope = p_scope p,
           policy_name = Some (p_name p)\<rparr>
      | Some k \<Rightarrow>
          \<lparr>decision = check_decision k, reason = check_reason h p r ms k,
           scope = (if k = ApprovalThreshold then p_scope p else None),
           policy_name = Some (p_name p)\<rparr>)"
    unfolding evaluate_ordered ordered_evaluate_def first_failing_def checks_in_order_def
      check_result_def all_passed_def ..
  moreover have "skill_id r = None \<longrightarrow> \<not> check_fails h p r ms GrantSkill"
    by (simp add: skill_not_granted_def)
  ultimately show ?thesis
    using evaluate_decision [of h p r ms] evaluate_policy_name [of h p r ms]
      evaluate_scope [of h p r ms] evaluate_all_passed [of h p r ms]
      evaluate_reason_names [of h p r ms]
    by blast
qed

theorem evaluate_check_order_witness:
  "check_fails sample_host test_stripe (charge_request ''unauthorized-agent'' 150) None GrantAgent \<and>
   check_fails sample_host test_stripe (charge_request ''unauthorized-agent'' 150) None
     PerTransaction \<and>
   check_fails sample_host test_stripe (charge_request ''unauthorized-agent'' 150) None
     ApprovalThreshold \<and>
   first_failing sample_host test_stripe (charge_request ''unauthorized-agent'' 150) None
     = Some GrantAgent \<and>
   evaluate sample_host test_stripe (charge_request ''unauthorized-agent'' 150) None =
     \<lparr>decision = Deny,
      reason = ''Agent '' @ quoted ''unauthorized-agent'' @
               '' is not granted access by policy '' @ quoted ''test-stripe'' @ ''.'',
      scope = None, policy_name = Some ''test-stripe''\<rparr> \<and>
   str_includes
     (reason (evaluate sample_host test_stripe (charge_request ''unauthorized-agent'' 150) None))
     ''test-stripe''"
proof -
  let ?r = "charge_request ''unauthorized-agent'' 150"
  have fails: "check_fails sample_host test_stripe ?r None GrantAgent"
    "check_fails sample_host test_stripe ?r None PerTransaction"
    "check_fails sample_host test_stripe ?r None ApprovalThreshold"
    by code_simp+
  have ff: "first_failing sample_host test_stripe ?r None = Some GrantAgent"
    by code_simp
  then have fnd: "find (check_fails sample_host test_stripe ?r None)
             [ExplicitDeny, GrantAgent, GrantSkill, Actions, PerTransaction, Monthly,
              ApprovalThreshold, ConditionExpr] = Some GrantAgent"
    by (simp only: first_failing_def checks_in_order_def)
  have nm: "names_in_reason GrantAgent" "p_name test_stripe = ''test-stripe''"
    "agent_id ?r = ''unauthorized-agent''"
    by (simp_all add: names_in_reason_def test_stripe_def charge_request_def)
  have whole: "evaluate sample_host test_stripe ?r None =
     \<lparr>decision = Deny,
      reason = ''Agent '' @ quoted ''unauthorized-agent'' @
               '' is not granted access by policy '' @ quoted ''test-stripe'' @ ''.'',
      scope = None, policy_name = Some ''test-stripe''\<rparr>"
    using evaluate_check_order [of sample_host test_stripe ?r None, THEN conjunct1]
    by (simp only: fnd option.case check_decision.simps check_reason.simps nm check.simps
        if_False)
  have "str_includes (reason (evaluate sample_host test_stripe ?r None)) ''test-stripe''"
    using evaluate_check_order [of sample_host test_stripe ?r None, THEN conjunct2] ff nm(1,2)
    by simp
  with fails ff whole show ?thesis by blast
qed

text \<open>
  C3 as stated fails: a request of 150 against the per-transaction limit 100 is denied
  with the reason "Amount $150 exceeds max per transaction $100.", which does not name
  the policy \<open>test-stripe\<close>.
\<close>

theorem evaluate_reason_omits_policy:
  "decision (evaluate sample_host test_stripe (charge_request ''test-agent'' 150) None) = Deny \<and>
   reason (evaluate sample_host test_stripe (charge_request ''test-agent'' 150) None)
     = ''Amount $150 exceeds max per transaction $100.'' \<and>
   \<not> str_includes
       (reason (evaluate sample_host test_stripe (charge_request ''test-agent'' 150) None))
       (p_name test_stripe)"
  by code_simp

text \<open>
  C4. \<open>evaluateFirst\<close> keeps the policies whose \<open>credential\<close> equals the request's
  credential name, in document order. With none it denies with "No policy found for
  credential '...'."; otherwise it returns the evaluation of the first candidate that
  allows or requires approval, and when there is none (every candidate denies) the
  evaluation of the last candidate.
\<close>

theorem evaluateFirst_first_permitting:
  "evaluateFirst h policies request ms =
    (let candidates = filter (\<lambda>p. p_credential p = credential_name request) policies in
     if candidates = [] then
       \<lparr>decision = Deny,
        reason = ''No policy found for credential '' @ quoted (credential_name request) @ ''.'',
        scope = None, policy_name = None\<rparr>
     else
       (case find (\<lambda>p. decision (evaluate h p request ms) = Allow \<or>
                       decision (evaluate h p request ms) = RequireApproval) candidates of
          Some p \<Rightarrow> evaluate h p request ms
        | None \<Rightarrow> evaluate h (last candidates) request ms)) \<and>
   (find (\<lambda>p. decision (evaluate h p request ms) = Allow \<or>
                decision (evaluate h p request ms) = RequireApproval)
      (filter (\<lambda>p. p_credential p = credential_name request) policies) = None \<longrightarrow>
    decision (evaluateFirst h policies request ms) = Deny)"
proof -
  let ?candidates = "filter (\<lambda>p. p_credential p = credential_name request) policies"
  let ?permits = "\<lambda>p. decision (evaluate h p request ms) = Allow \<or>
                      decision (evaluate h p request ms) = RequireApproval"
  have eq: "evaluateFirst h policies request ms =
    (let candidates = ?candidates in
     if candidates = [] then
       \<lparr>decision = Deny,
        reason = ''No policy found for credential '' @ quoted (credential_name request) @ ''.'',
        scope = None, policy_name = None\<rparr>
     else
       (case find ?permits candidates of
          Some p \<Rightarrow> evaluate h p request ms
        | None \<Rightarrow> evaluate h (last candidates) request ms))"
    by (auto simp: evaluateFirst_def Let_def first_permitted_find no_policy_found_def
        last_conv_nth split: option.splits)
  have "decision (evaluateFirst h policies request ms) = Deny" if none: "find ?permits ?candidates = None"
  proof (cases "?candidates = []")
    case True
    then show ?thesis by (simp add: eq)
  next
    case False
    then have "last ?candidates \<in> set ?candidates" by (rule last_in_set)
    with none have "\<not> ?permits (last ?candidates)"
      unfolding find_None_iff by blast
    then have "decision (evaluate h (last ?candidates) request ms) = Deny"
      by (cases "decision (evaluate h (last ?candidates) request ms)") simp_all
    with False none show ?thesis by (simp add: eq)
  qed
  with eq show ?thesis by blast
qed

theorem evaluateFirst_first_permitting_witness:
  "evaluateFirst sample_host [test_stripe] (charge_request ''test-agent'' 25) None =
     evaluate sample_host test_stripe (charge_request ''test-agent'' 25) None \<and>
   decision (evaluateFirst sample_host [test_stripe] (charge_request ''test-agent'' 25) None)
     = Allow \<and>
   reason (evaluateFirst sample_host [test_stripe] (charge_request ''other-key-agent'' 25
             \<lparr>credential_name := ''github-token''\<rparr>) None)
     = ''No policy found for credential '' @ quoted ''github-token'' @ ''.'' \<and>
   decision (evaluateFirst sample_host
               [test_stripe, blank_policy ''second'' ''stripe-key'' (Some (Single ''ops-agent''))]
               (charge_request ''unauthorized-agent'' 25) None) = Deny"
proof -
  have none: "find (\<lambda>p. decision (evaluate sample_host p
                                 (charge_request ''unauthorized-agent'' 25) None) = Allow \<or>
                           decision (evaluate sample_host p
                                 (charge_request ''unauthorized-agent'' 25) None) = RequireApproval)
      (filter (\<lambda>p. p_credential p = credential_name (charge_request ''unauthorized-agent'' 25))
         [test_stripe, blank_policy ''second'' ''stripe-key'' (Some (Single ''ops-agent''))])
      = None"
    by code_simp
  have d: "decision (evaluate sample_host test_stripe (charge_request ''test-agent'' 25) None)
      = Allow"
    by code_simp
  have c: "p_credential test_stripe = ''stripe-key''"
    by (simp add: test_stripe_def)
  show ?thesis
    using evaluateFirst_first_permitting
        [of sample_host "[test_stripe]" "charge_request ''test-agent'' 25" None,
         THEN conjunct1]
      evaluateFirst_first_permitting
        [of sample_host "[test_stripe]"
            "charge_request ''other-key-agent'' 25 \<lparr>credential_name := ''github-token''\<rparr>" None,
         THEN conjunct1]
      evaluateFirst_first_permitting
        [of sample_host
            "[test_stripe, blank_policy ''second'' ''stripe-key'' (Some (Single ''ops-agent''))]"
            "charge_request ''unauthorized-agent'' 25" None, THEN conjunct2, rule_format, OF none]
      d c
    by (simp add: charge_request_def)
qed


subsection \<open>Schema validation and the policy loader\<close>






















subsection \<open>Audit log\<close>

lemma month_char_code: "c \<in> set ''0123456789-'' \<Longrightarrow> (of_char c :: nat) < 65"
  by auto

lemma month_char_plain: "c \<in> set ''0123456789-'' \<Longrightarrow> c \<noteq> CHR ''%'' \<and> c \<noteq> CHR ''_''"
  by auto

lemma ascii_lower_code:
  "(of_char (ascii_lower x) :: nat) =
     (if 65 \<le> (of_char x :: nat) \<and> (of_char x :: nat) \<le> 90 then of_char x + 32 else of_char x)"
  by (simp add: ascii_lower_def Let_def)

lemma ascii_lower_eq_iff:
  assumes "(of_char c :: nat) < 65"
  shows "ascii_lower c = ascii_lower x \<longleftrightarrow> c = x"
proof
  assume eq: "ascii_lower c = ascii_lower x"
  have c: "ascii_lower c = c"
    using assms by (simp add: ascii_lower_def Let_def)
  have "(of_char (ascii_lower x) :: nat) = of_char c"
    using eq c by simp
  then have "(of_char x :: nat) = of_char c"
    using assms by (simp add: ascii_lower_code split: if_splits)
  then show "c = x" by simp
next
  assume "c = x"
  then show "ascii_lower c = ascii_lower x" by simp
qed

lemma sql_like_percent: "sql_like ''%'' s"
  by (induction s) simp_all

lemma sql_like_prefix:
  "list_all (\<lambda>c. c \<in> set ''0123456789-'') m \<Longrightarrow> sql_like (m @ ''%'') s \<longleftrightarrow> prefix m s"
proof (induction m arbitrary: s)
  case Nil
  then show ?case using sql_like_percent by simp
next
  case (Cons c m)
  then have c: "c \<in> set ''0123456789-''" and m: "list_all (\<lambda>c. c \<in> set ''0123456789-'') m"
    by simp_all
  show ?case
  proof (cases s)
    case Nil
    then show ?thesis using month_char_plain [OF c] by simp
  next
    case (Cons x xs)
    then show ?thesis
      using month_char_plain [OF c] ascii_lower_eq_iff [OF month_char_code [OF c], of x]
        Cons.IH [OF m, of xs]
      by simp
  qed
qed

lemma add_amount_details:
  assumes "JSON_parse h [] = None"
  shows "add_amount h sofar (row_details row) =
     (case details_amount h row of None \<Rightarrow> sofar | Some a \<Rightarrow> num_add h sofar a)"
  using assms
  by (simp add: add_amount_def details_amount_def split: option.splits json.splits)

lemma spending_loop_fold:
  assumes "JSON_parse h [] = None"
  shows "spending_loop h (map row_details rows) sofar =
     foldl (num_add h) sofar (List.map_filter (details_amount h) rows)"
proof (induction rows arbitrary: sofar)
  case Nil
  then show ?case by (simp add: map_filter_simps)
next
  case (Cons row rows)
  show ?case
  proof (cases "details_amount h row")
    case None
    then show ?thesis
      using Cons [of sofar] add_amount_details [OF assms, of sofar row]
      by (simp add: map_filter_simps)
  next
    case (Some a)
    then show ?thesis
      using Cons [of "num_add h sofar a"] add_amount_details [OF assms, of sofar row]
      by (simp add: map_filter_simps)
  qed
qed

text \<open>
  C8. For a month prefix \<open>m\<close> (a non-empty run of digits and hyphens, such as
  \<open>2025-01\<close>) and a credential name \<open>c\<close>, \<open>getMonthlySpending\<close> is the sum of the
  numeric \<open>amount\<close> fields of the JSON objects in the \<open>details\<close> of the \<open>credential_used\<close>
  rows of credential \<open>c\<close> whose timestamp begins with \<open>m\<close>; a row whose details are
  absent, do not parse, or hold no numeric \<open>amount\<close> adds nothing. The sum is
  JavaScript's: taken from 0, with the addition of doubles, through the rows in the
  order in which the query returns them. (\<open>JSON.parse\<close> rejects the empty text.)
\<close>

theorem monthly_spending_is_sum:
  assumes "month_prefix m" and "JSON_parse h [] = None"
  shows "AuditLogger_getMonthlySpending h logger c (Some m) now returned =
           sum_of_amounts h (returned (used_entries (audit_log logger) c m))"
proof -
  from assms(1) have ne: "truthy_str (Some m)"
    and chars: "list_all (\<lambda>c. c \<in> set ''0123456789-'') m"
    by (simp_all add: month_prefix_def truthy_str_def)
  have sel: "sql_like (m @ ''%'') ts \<longleftrightarrow> prefix m ts" for ts
    by (rule sql_like_prefix [OF chars])
  show ?thesis
    unfolding AuditLogger_getMonthlySpending_def sum_of_amounts_def used_entries_def Let_def
    by (simp only: ne if_True the_default_def option.case sel spending_loop_fold [OF assms(2)])
qed

subsection \<open>Token store\<close>













theorem monthly_spending_is_sum_witness:
  "AuditLogger_getMonthlySpending sample_host spending_log ''stripe-key'' (Some ''2025-01'') 0
     (\<lambda>rows. rows) = Finite 40 \<and>
   AuditLogger_getMonthlySpending sample_host spending_log ''stripe-key'' (Some ''2025-01'') 0
     rev = Finite 40"
proof -
  have m: "month_prefix ''2025-01''"
    by (simp add: month_prefix_def)
  have p: "JSON_parse sample_host [] = None"
    by (simp add: sample_host_def sample_JSON_parse_def)
  have "sum_of_amounts sample_host (used_entries (audit_log spending_log) ''stripe-key'' ''2025-01'')
      = Finite 40"
    "sum_of_amounts sample_host
       (rev (used_entries (audit_log spending_log) ''stripe-key'' ''2025-01'')) = Finite 40"
    by code_simp+
  with monthly_spending_is_sum [OF m p, of spending_log "''stripe-key''" 0 "\<lambda>rows. rows"]
    monthly_spending_is_sum [OF m p, of spending_log "''stripe-key''" 0 rev]
  show ?thesis by simp
qed

subsection \<open>Vault\<close>

text \<open>
  C10. \<open>getCredential\<close> and \<open>listCredentials\<close> call \<open>ensureUnlocked\<close> first: on a vault
  whose key is \<open>null\<close> (a vault just constructed, or one that was closed) both throw
  the vault-locked error, and so return no data.
\<close>

theorem read_requires_unlock:
  "(key v = None \<longrightarrow>
      Vault_getCredential prim h v n = Inl VaultLocked \<and>
      Vault_listCredentials h v = Inl VaultLocked) \<and>
   key (new_Vault meta rows) = None \<and>
   key (Vault_close v) = None \<and>
   Vault_getCredential prim h (new_Vault meta rows) n = Inl VaultLocked \<and>
   Vault_listCredentials h (new_Vault meta rows) = Inl VaultLocked \<and>
   Vault_getCredential prim h (Vault_close v) n = Inl VaultLocked \<and>
   Vault_listCredentials h (Vault_close v) = Inl VaultLocked"
  by (simp add: Vault_getCredential_def Vault_listCredentials_def ensureUnlocked_def
      new_Vault_def Vault_close_def)

theorem read_requires_unlock_witness:
  "key (Vault_close stripe_vault) = None \<and>
   Vault_getCredential sample_primitives sample_host (Vault_close stripe_vault) ''stripe-key''
     = Inl VaultLocked \<and>
   Vault_listCredentials sample_host (Vault_close stripe_vault) = Inl VaultLocked \<and>
   map_option c_value
     (projr (Vault_getCredential sample_primitives sample_host stripe_vault ''stripe-key''))
     = Some ''test-credential-value-abc123''"
proof -
  have k: "key (Vault_close stripe_vault) = None"
    by (simp add: Vault_close_def)
  have open_read: "map_option c_value
     (projr (Vault_getCredential sample_primitives sample_host stripe_vault ''stripe-key''))
     = Some ''test-credential-value-abc123''"
    by code_simp
  show ?thesis
    using read_requires_unlock
      [of "Vault_close stripe_vault" sample_primitives sample_host "''stripe-key''"] k open_read
    by simp
qed

text \<open>
  C6 fails on the code: \<open>close\<close> sets the field \<open>key\<close> to \<open>null\<close> and closes the
  database; it writes to no buffer. After \<open>initialize\<close> and \<open>close\<close> the reference is
  gone and the buffer still holds the derived key, not zeros. (The database holds the
  salt and the schema version only.)
\<close>

theorem close_leaves_key_bytes:
  "heap (Vault_close v) = heap v \<and>
   key initialized_vault = Some 0 \<and>
   key (Vault_close initialized_vault) = None \<and>
   heap (Vault_close initialized_vault) 0 =
     deriveKey sample_primitives ''integration-test-pass'' [1, 2, 3, 4] \<and>
   heap (Vault_close initialized_vault) 0 \<noteq> replicate 32 0 \<and>
   map fst (wallet_meta initialized_vault) = [''salt'', ''version''] \<and>
   credentials initialized_vault = []"
proof -
  have "map fst (wallet_meta initialized_vault) = [''salt'', ''version''] \<and>
      credentials initialized_vault = []"
    by code_simp
  moreover have "heap (Vault_close v) = heap v"
    by (simp add: Vault_close_def)
  moreover have "key initialized_vault = Some 0"
    by code_simp
  moreover have "key (Vault_close initialized_vault) = None"
    by (simp add: Vault_close_def)
  moreover have "heap (Vault_close initialized_vault) 0 =
     deriveKey sample_primitives ''integration-test-pass'' [1, 2, 3, 4]"
    by code_simp
  moreover have "heap (Vault_close initialized_vault) 0 \<noteq> replicate 32 0"
    by code_simp
  ultimately show ?thesis by blast
qed

subsection \<open>Request pipeline\<close>

lemma evaluateFirst_none:
  "filter (\<lambda>p. p_credential p = credential_name r) ps = [] \<Longrightarrow>
     evaluateFirst h ps r ms = no_policy_found r"
  by (simp add: evaluateFirst_def)

lemma log_events:
  "map row_event (audit_log (snd (AuditLogger_log h l e t))) =
     map row_event (audit_log l) @ [e_event e]"
  by (simp add: AuditLogger_log_def Let_def)

lemma appended_events_alt:
  "appended_events b a =
     drop (length (map row_event (audit_log (d_auditLogger b))))
       (map row_event (audit_log (d_auditLogger a)))"
  by (simp add: appended_events_def drop_map)


lemma appended_one:
  "map row_event (audit_log (d_auditLogger a)) =
     map row_event (audit_log (d_auditLogger b)) @ evs \<Longrightarrow> appended_events b a = evs"
  by (simp add: appended_events_alt)

lemma getCredential_not_RangeError: "Vault_getCredential prim h v n \<noteq> Inl RangeError"
  by (simp add: Vault_getCredential_def ensureUnlocked_def split: option.splits)

text \<open>
  What every invocation appends to the audit log: \<open>credential_requested\<close>, then the
  event of its reply. A reply with status \<open>error\<close>, and an exception from the vault,
  have no event.
\<close>

lemma audit_sequence:
  "appended_events d (fst (request_credential prim h env d params)) =
     credential_requested # outcome_events (snd (request_credential prim h env d params))"
proof -
  let ?request = "params\<lparr>req_context := None\<rparr>"
  define log1 where "log1 = snd (AuditLogger_log h (d_auditLogger d)
      (requested_entry h ?request (date_requested env)) (date_requested env))"
  define result where "result = evaluateFirst h
      (listPoliciesForAgent (d_policyLoader d) (agent_id params) (skill_id params)) ?request
      (Some (AuditLogger_getMonthlySpending h log1 (credential_name params) None (date_month env)
               (rows_returned env)))"
  have l1: "map row_event (audit_log log1) =
      map row_event (audit_log (d_auditLogger d)) @ [credential_requested]"
    unfolding log1_def by (simp add: log_events requested_entry_def)
  have l2: "map row_event (audit_log (snd (AuditLogger_log h log1 e t))) =
      map row_event (audit_log (d_auditLogger d)) @ [credential_requested, e_event e]" for e t
    by (simp add: log_events l1)
  consider (deny) "decision result = Deny"
    | (approval) "decision result = RequireApproval"
    | (allow) "decision result = Allow"
    by (cases "decision result") auto
  then show ?thesis
  proof cases
    case deny
    then have "request_credential prim h env d params =
        (d\<lparr>d_auditLogger := snd (AuditLogger_log h log1
             (outcome_entry h ?request result credential_denied ''denied'' (date_outcome env))
             (date_outcome env))\<rparr>,
         Inr (Denied (reason result)))"
      unfolding request_credential_def Let_def log1_def result_def by simp
    then show ?thesis
      by (simp add: appended_one l2 outcome_entry_def)
  next
    case approval
    then have "request_credential prim h env d params =
        (d\<lparr>d_auditLogger := snd (AuditLogger_log h log1
             (outcome_entry h ?request result approval_required ''pending_approval''
                (date_outcome env))
             (date_outcome env))\<rparr>,
         Inr (ApprovalNeeded (reason result) (policy_name result)))"
      unfolding request_credential_def Let_def log1_def result_def by simp
    then show ?thesis
      by (simp add: appended_one l2 outcome_entry_def)
  next
    case allow
    show ?thesis
    proof (cases "Vault_getCredential prim h (d_vault d) (credential_name params)")
      case (Inl e)
      then have "e \<noteq> RangeError"
        using getCredential_not_RangeError [of prim h "d_vault d" "credential_name params"]
        by auto
      then have none: "outcome_events (Inl e) = []"
        by (cases e) simp_all
      from allow Inl have "request_credential prim h env d params =
          (d\<lparr>d_auditLogger := log1\<rparr>, Inl e)"
        unfolding request_credential_def Let_def log1_def result_def by simp
      then show ?thesis by (simp add: appended_one l1 none)
    next
      case (Inr found)
      show ?thesis
      proof (cases found)
        case None
        with allow Inr have "request_credential prim h env d params =
            (d\<lparr>d_auditLogger := log1\<rparr>,
             Inr (Failed (''Credential '' @ quoted (credential_name params) @
                          '' not found in vault.'')))"
          unfolding request_credential_def Let_def log1_def result_def by simp
        then show ?thesis by (simp add: appended_one l1)
      next
        case (Some credential)
        with allow Inr show ?thesis
          unfolding request_credential_def Let_def result_def log1_def
          by (simp add: case_prod_beta appended_events_alt log_events requested_entry_def
              granted_entry_def split: option.splits)
      qed
    qed
  qed
qed

text \<open>
  C5 fails on the code: with the policy \<open>test-stripe\<close> loaded and no credential
  \<open>stripe-key\<close> in the vault, a request the engine allows returns status \<open>error\<close>
  and the audit log gains the \<open>credential_requested\<close> event only.
\<close>

theorem missing_credential_not_audited:
  "snd (request_credential sample_primitives sample_host test_readings empty_vault_deps
          (charge_request ''test-agent'' 25))
     = Inr (Failed (''Credential '' @ quoted ''stripe-key'' @ '' not found in vault.'')) \<and>
   appended_events empty_vault_deps
     (fst (request_credential sample_primitives sample_host test_readings empty_vault_deps
             (charge_request ''test-agent'' 25)))
     = [credential_requested]"
  by code_simp

text \<open>The same request with the credential in the vault is granted and audited.\<close>

theorem granted_is_audited:
  "appended_events test_deps
     (fst (request_credential sample_primitives sample_host test_readings test_deps
             (charge_request ''test-agent'' 25)))
     = [credential_requested, credential_granted]"
  by code_simp

text \<open>
  C1 as stated fails: in scenario 2 the reply is \<open>denied\<close> with the reason
  "No policy found for credential 'stripe-key'.", which does not mention "not granted".
\<close>

theorem unauthorized_reason:
  "snd (request_credential sample_primitives sample_host test_readings test_deps
          (charge_request ''unauthorized-agent'' 25))
     = Inr (Denied (''No policy found for credential '' @ quoted ''stripe-key'' @ ''.'')) \<and>
   \<not> str_includes (''No policy found for credential '' @ quoted ''stripe-key'' @ ''.'')
        ''not granted''"
  by code_simp


text \<open>
  C1, as amended. When no loaded policy for the requested credential passes the
  pre-filter of \<open>listPoliciesForAgent\<close> for the requesting agent (and skill), the engine
  is handed no candidate: \<open>request_credential\<close> replies \<open>denied\<close> with the reason
  "No policy found for credential '...'." and appends \<open>credential_requested\<close> and
  \<open>credential_denied\<close> to the audit log.
\<close>

theorem ungranted_agent_denied:
  assumes "\<forall>p \<in> set (listPolicies (d_policyLoader d)).
             p_credential p = credential_name params \<longrightarrow>
             \<not> granted_to (agent_id params) (skill_id params) p"
  shows "snd (request_credential prim h env d params) =
           Inr (Denied (''No policy found for credential '' @
                        quoted (credential_name params) @ ''.'')) \<and>
         appended_events d (fst (request_credential prim h env d params)) =
           [credential_requested, credential_denied]"
proof -
  let ?request = "params\<lparr>req_context := None\<rparr>"
  let ?policies = "listPoliciesForAgent (d_policyLoader d) (agent_id params) (skill_id params)"
  have "filter (\<lambda>p. p_credential p = credential_name ?request) ?policies = []"
    using assms by (auto simp: listPoliciesForAgent_def filter_empty_conv)
  then have ev: "evaluateFirst h ?policies ?request ms = no_policy_found ?request" for ms
    by (rule evaluateFirst_none)
  have dec: "decision (no_policy_found ?request) = Deny"
    "reason (no_policy_found ?request) =
       ''No policy found for credential '' @ quoted (credential_name params) @ ''.''"
    by (simp_all add: no_policy_found_def)
  define log1 where "log1 = snd (AuditLogger_log h (d_auditLogger d)
      (requested_entry h ?request (date_requested env)) (date_requested env))"
  define log2 where "log2 = snd (AuditLogger_log h log1
      (outcome_entry h ?request (no_policy_found ?request) credential_denied ''denied''
         (date_outcome env)) (date_outcome env))"
  have res: "request_credential prim h env d params =
      (d\<lparr>d_auditLogger := log2\<rparr>,
       Inr (Denied (''No policy found for credential '' @
                    quoted (credential_name params) @ ''.'')))"
    unfolding request_credential_def Let_def log1_def log2_def
    by (simp add: ev dec)
  have "map row_event (audit_log log2) =
      map row_event (audit_log (d_auditLogger d)) @ [credential_requested, credential_denied]"
    unfolding log2_def log1_def
    by (simp add: log_events requested_entry_def outcome_entry_def)
  then have "appended_events d (d\<lparr>d_auditLogger := log2\<rparr>) =
      [credential_requested, credential_denied]"
    by (simp add: appended_events_alt)
  with res show ?thesis by simp
qed

theorem ungranted_agent_denied_witness:
  "snd (request_credential sample_primitives sample_host test_readings test_deps
          (charge_request ''unauthorized-agent'' 25)) =
     Inr (Denied (''No policy found for credential '' @ quoted ''stripe-key'' @ ''.'')) \<and>
   appended_events test_deps
     (fst (request_credential sample_primitives sample_host test_readings test_deps
             (charge_request ''unauthorized-agent'' 25))) =
     [credential_requested, credential_denied]"
proof -
  have pol: "listPolicies (d_policyLoader test_deps) = [test_stripe]"
    by (simp add: test_deps_def empty_vault_deps_def test_loader_def listPolicies_def)
  have "\<not> granted_to ''unauthorized-agent'' None test_stripe"
    by code_simp
  then have hyp: "\<forall>p \<in> set (listPolicies (d_policyLoader test_deps)).
      p_credential p = credential_name (charge_request ''unauthorized-agent'' 25) \<longrightarrow>
      \<not> granted_to (agent_id (charge_request ''unauthorized-agent'' 25))
            (skill_id (charge_request ''unauthorized-agent'' 25)) p"
    by (simp add: pol charge_request_def)
  from ungranted_agent_denied [OF hyp, of sample_primitives sample_host test_readings]
  show ?thesis by (simp add: charge_request_def)
qed


end
